theory Spec2Isabelle
  imports Complex_Main
begin

section \<open>Python values and exceptions\<close>

text \<open>
  What can be raised. \<open>KeyboardInterrupt\<close>, \<open>SystemExit\<close> and \<open>GeneratorExit\<close> derive
  from \<open>BaseException\<close> and not from \<open>Exception\<close>; every other constructor is a subclass
  of \<open>Exception\<close>. \<open>AlgorithmError\<close> stands for any other subclass of \<open>Exception\<close> that
  the external search function raises. An \<open>except Exception\<close> clause catches exactly
  the exceptions for which \<open>is_Exception\<close> holds.
\<close>

datatype error =
    ValueError
  | OverflowError
  | AttributeError
  | TypeError
  | IndexError
  | StopIteration
  | OSError
  | AlgorithmError string
  | KeyboardInterrupt
  | SystemExit
  | GeneratorExit

fun is_Exception :: "error \<Rightarrow> bool" where
  "is_Exception KeyboardInterrupt = False"
| "is_Exception SystemExit = False"
| "is_Exception GeneratorExit = False"
| "is_Exception e = True"

text \<open>
  A call either does not return (\<open>None\<close>), raises (\<open>Some (Inl e)\<close>) or returns a
  value (\<open>Some (Inr v)\<close>). \<open>ebind\<close> and \<open>obind\<close> sequence two steps: the second runs
  only when the first returned.
\<close>

type_synonym 'a outcome = "(error + 'a) option"

fun ebind :: "error + 'a \<Rightarrow> ('a \<Rightarrow> error + 'b) \<Rightarrow> error + 'b" where
  "ebind (Inl e) f = Inl e"
| "ebind (Inr v) f = f v"

fun obind :: "'a outcome \<Rightarrow> ('a \<Rightarrow> 'b outcome) \<Rightarrow> 'b outcome" where
  "obind None f = None"
| "obind (Some (Inl e)) f = Some (Inl e)"
| "obind (Some (Inr v)) f = f v"

text \<open>
  Numbers: Python's \<open>int\<close> is unbounded; a finite \<open>float\<close> is a rational number, the
  other floats are the two infinities and NaN. \<open>py_int\<close> is the built-in \<open>int(x)\<close> on a
  number: truncation towards zero, \<open>OverflowError\<close> on an infinity, \<open>ValueError\<close> on NaN.
\<close>

datatype pynum = PyInt int | PyFloat rat | PyInf | PyNegInf | PyNaN

fun py_int :: "pynum \<Rightarrow> error + int" where
  "py_int (PyInt n) = Inr n"
| "py_int (PyFloat x) = Inr (if 0 \<le> x then \<lfloor>x\<rfloor> else \<lceil>x\<rceil>)"
| "py_int PyInf = Inl OverflowError"
| "py_int PyNegInf = Inl OverflowError"
| "py_int PyNaN = Inl ValueError"

text \<open>
  \<open>xs[k]\<close> on a Python list: a negative index counts from the end, an index out of range
  raises \<open>IndexError\<close>.
\<close>

definition index :: "'a list \<Rightarrow> int \<Rightarrow> error + 'a" where
  "index xs k =
     (let n = int (length xs); k' = (if k < 0 then n + k else k)
      in if 0 \<le> k' \<and> k' < n then Inr (xs ! nat k') else Inl IndexError)"

text \<open>
  The built-in conversions \<open>int(s)\<close> and \<open>float(s)\<close> of a line of text are parameters of
  the model; \<open>None\<close> is the \<open>ValueError\<close> they raise on text that is no number.
\<close>

record builtins =
  int_of_str :: "string \<Rightarrow> int option"
  float_of_str :: "string \<Rightarrow> pynum option"

definition to_int :: "builtins \<Rightarrow> string \<Rightarrow> error + int" where
  "to_int B s = (case int_of_str B s of None \<Rightarrow> Inl ValueError | Some n \<Rightarrow> Inr n)"

definition to_float :: "builtins \<Rightarrow> string \<Rightarrow> error + pynum" where
  "to_float B s = (case float_of_str B s of None \<Rightarrow> Inl ValueError | Some x \<Rightarrow> Inr x)"

section \<open>utils/utils.py\<close>

subsection \<open>\<open>convert_string_to_cells\<close>\<close>

text \<open>\<open>s.split(sep)\<close> for a one-character separator: \<open>k\<close> separators give \<open>k + 1\<close> pieces.\<close>

fun split_on :: "char \<Rightarrow> string \<Rightarrow> string list" where
  "split_on sep [] = [[]]"
| "split_on sep (c # cs) =
     (if c = sep then [] # split_on sep cs
      else (case split_on sep cs of [] \<Rightarrow> [[c]] | l # ls \<Rightarrow> (c # l) # ls))"

text \<open>
  Blanks are deleted, the text is split at newlines, empty lines are dropped, and every
  remaining character becomes 1 for \<open>#\<close> and 0 for anything else. \<open>np.array\<close> with
  \<open>dtype=np.int8\<close> raises \<open>ValueError\<close> when the rows differ in length.
\<close>

definition rectangular :: "'a list list \<Rightarrow> bool" where
  "rectangular rows = (case rows of [] \<Rightarrow> True | r # rs \<Rightarrow> list_all (\<lambda>r'. length r' = length r) rs)"

definition convert_string_to_cells :: "string \<Rightarrow> error + int list list" where
  "convert_string_to_cells cell_str =
     (let lines = split_on (CHR 0x0A) (filter (\<lambda>c. c \<noteq> CHR '' '') cell_str);
          rows = map (\<lambda>line. map (\<lambda>char. if char = CHR ''#'' then 1 else 0) line)
                   (filter (\<lambda>line. line \<noteq> []) lines)
      in if rectangular rows then Inr rows else Inl ValueError)"

subsection \<open>\<open>compute_cost\<close>\<close>

text \<open>
  Python integers are unbounded, hence \<open>int\<close>. The only exception the function raises is
  \<open>ValueError\<close>.
\<close>

definition compute_cost :: "int \<Rightarrow> int \<Rightarrow> int \<Rightarrow> int \<Rightarrow> error + int" where
  "compute_cost i1 j1 i2 j2 =
     (if \<bar>i1 - i2\<bar> + \<bar>j1 - j2\<bar> = 1 then Inr 1 else Inl ValueError)"

subsection \<open>\<open>read_task_from_file\<close>\<close>

text \<open>
  A file is the list of its lines, \<open>None\<close> when it cannot be opened (\<open>open\<close> raises
  \<open>OSError\<close>). \<open>next(tasks_file)\<close> takes the first remaining line and raises
  \<open>StopIteration\<close> at the end of the file. The result is the tuple
  \<open>(cells, start_i, start_j, goal_i, goal_j, length)\<close>; the width is read and not used.
\<close>

type_synonym task = "int list list \<times> int \<times> int \<times> int \<times> int \<times> pynum"

definition next_line :: "string list \<Rightarrow> error + string \<times> string list" where
  "next_line tasks_file =
     (case tasks_file of [] \<Rightarrow> Inl StopIteration | l # rest \<Rightarrow> Inr (l, rest))"

fun next_lines :: "nat \<Rightarrow> string list \<Rightarrow> error + string list \<times> string list" where
  "next_lines 0 tasks_file = Inr ([], tasks_file)"
| "next_lines (Suc n) tasks_file =
     ebind (next_line tasks_file) (\<lambda>(l, rest).
     ebind (next_lines n rest) (\<lambda>(ls, rest'). Inr (l # ls, rest')))"

definition next_int :: "builtins \<Rightarrow> string list \<Rightarrow> error + int \<times> string list" where
  "next_int B tasks_file =
     ebind (next_line tasks_file) (\<lambda>(l, rest). ebind (to_int B l) (\<lambda>n. Inr (n, rest)))"

definition read_task_from_file :: "builtins \<Rightarrow> string list option \<Rightarrow> error + task" where
  "read_task_from_file B path =
     (case path of
        None \<Rightarrow> Inl OSError
      | Some tasks_file \<Rightarrow>
          ebind (next_int B tasks_file) (\<lambda>(height, f1).
          ebind (next_int B f1) (\<lambda>(width, f2).
          ebind (next_lines (nat height) f2) (\<lambda>(map_lines, f3).
          ebind (convert_string_to_cells (concat map_lines)) (\<lambda>cells.
          ebind (next_int B f3) (\<lambda>(start_i, f4).
          ebind (next_int B f4) (\<lambda>(start_j, f5).
          ebind (next_int B f5) (\<lambda>(goal_i, f6).
          ebind (next_int B f6) (\<lambda>(goal_j, f7).
          ebind (next_line f7) (\<lambda>(l, f8).
          ebind (to_float B l) (\<lambda>task_length.
          Inr (cells, start_i, start_j, goal_i, goal_j, task_length))))))))))))"

subsection \<open>Search nodes and \<open>make_path\<close>\<close>

text \<open>
  Nodes are objects: a node is known by its reference, and a store maps every reference
  to the node's fields. \<open>parent\<close> holds a reference or Python's \<open>None\<close>, so a parent
  chain may run into a cycle. A node object is truthy, \<open>None\<close> is falsy.
\<close>

type_synonym ref = nat

record node =
  i :: int
  j :: int
  g :: pynum
  parent :: "ref option"

type_synonym heap = "ref \<Rightarrow> node"

text \<open>
  The \<open>while current.parent\<close> loop, on the variables \<open>current\<close> and \<open>path\<close>. It does
  not return when the chain of parents never reaches a node without parent.
\<close>

partial_function (option) make_path_loop :: "heap \<Rightarrow> ref \<Rightarrow> ref list \<Rightarrow> (ref list \<times> ref) option" where
  "make_path_loop h current path =
     (case parent (h current) of
        Some p \<Rightarrow> make_path_loop h p (path @ [current])
      | None \<Rightarrow> Some (path, current))"

declare make_path_loop.simps [code]

text \<open>
  \<open>make_path(goal)\<close>. The argument may be \<open>None\<close> (a search function that reports a path
  and returns no node); \<open>goal.g\<close> then raises \<open>AttributeError\<close>.
\<close>

definition make_path :: "heap \<Rightarrow> ref option \<Rightarrow> (ref list \<times> pynum) outcome" where
  "make_path h goal =
     (case goal of
        None \<Rightarrow> Some (Inl AttributeError)
      | Some n \<Rightarrow>
          (let path_length = g (h n)
           in case make_path_loop h n [] of
                None \<Rightarrow> None
              | Some (path, current) \<Rightarrow> Some (Inr (rev (path @ [current]), path_length))))"

subsection \<open>\<open>draw\<close>\<close>

text \<open>
  \<open>draw\<close> takes the map, start, goal, path and at most three collections of nodes; the
  test functions pass \<open>*other_results\<close>, so a fourth collection is a \<open>TypeError\<close>. The
  picture itself is outside the model.
\<close>

definition draw :: "ref list list \<Rightarrow> error + unit" where
  "draw other_results = (if length other_results \<le> 3 then Inr () else Inl TypeError)"

section \<open>utils/map.py\<close>

text \<open>
  Modelled from the spec: the class \<open>Map\<close> of \<open>utils/map.py\<close> is imported by both source
  files and is not among them. A map is the matrix of cells it was built from;
  \<open>get_size\<close> gives (height, width); \<open>traversable i j\<close> is false for a coordinate out of
  bounds and for a blocked cell (a non-zero entry), true otherwise.
\<close>

type_synonym grid_map = "int list list"

definition get_size :: "grid_map \<Rightarrow> nat \<times> nat" where
  "get_size m = (length m, (case m of [] \<Rightarrow> 0 | r # _ \<Rightarrow> length r))"

definition in_bounds :: "grid_map \<Rightarrow> int \<Rightarrow> int \<Rightarrow> bool" where
  "in_bounds m a b = (0 \<le> a \<and> a < int (fst (get_size m)) \<and> 0 \<le> b \<and> b < int (snd (get_size m)))"

definition traversable :: "grid_map \<Rightarrow> int \<Rightarrow> int \<Rightarrow> bool" where
  "traversable m a b = (in_bounds m a b \<and> m ! nat a ! nat b = 0)"

section \<open>tests/lab\_test.py\<close>

subsection \<open>The search function and what the tests print\<close>

text \<open>
  The search function is external. Called with the map and the four coordinates (the
  extra arguments \<open>*args\<close> are part of the function here), it raises or returns
  \<open>(found, end_node, number_of_steps, search_tree_size, *other_results)\<close> together with
  the nodes it has built. A result that cannot be unpacked into four values and a rest
  raises inside the \<open>try\<close> block like the call itself, and is an \<open>Inl\<close> here.
\<close>

record search_result =
  found :: bool
  end_node :: "ref option"
  number_of_steps :: int
  search_tree_size :: int
  other_results :: "ref list list"
  nodes :: heap

type_synonym search_function = "grid_map \<Rightarrow> int \<Rightarrow> int \<Rightarrow> int \<Rightarrow> int \<Rightarrow> error + search_result"

text \<open>One constructor for each \<open>print\<close> of the three test functions.\<close>

datatype report =
    PathFound pynum int int bool
  | PathNotFound
  | NoPathCorrect int int
  | SpuriousPath pynum int int
  | ExecutionError error
  | TaskPathFound nat pynum int int bool
  | TaskPathNotFound nat
  | IncorrectNumberOfTasks

text \<open>
  \<open>except Exception as e\<close>: an exception of class \<open>Exception\<close> is printed, and the
  function goes on after the \<open>try\<close> statement; any other raise leaves the function.
\<close>

definition except_Exception :: "report outcome \<Rightarrow> report outcome" where
  "except_Exception body =
     (case body of
        Some (Inl e) \<Rightarrow> if is_Exception e then Some (Inr (ExecutionError e)) else Some (Inl e)
      | _ \<Rightarrow> body)"

text \<open>
  \<open>task = random.randint(0, hi)\<close> when the argument is \<open>None\<close> or out of range;
  \<open>randint\<close> is the number the generator returns, between 0 and \<open>hi\<close> inclusive.
\<close>

definition choose_task :: "int \<Rightarrow> int option \<Rightarrow> int \<Rightarrow> int" where
  "choose_task n task randint =
     (case task of
        None \<Rightarrow> randint
      | Some t \<Rightarrow> if \<not> (0 \<le> t \<and> t < n) then randint else t)"

subsection \<open>\<open>simple_test\<close>\<close>

text \<open>The map text is the literal of the source after \<open>textwrap.dedent\<close>.\<close>

definition simple_test_map_str :: string where
  "simple_test_map_str = concat
    [''\<newline>'',
     ''. . . . . . . . . . . . . . . . . . . . . # # . . . . . . .  \<newline>'',
     ''. . . . . . . . . . . . . . . . . . . . . # # . . . . . . . \<newline>'',
     ''. . . . . . . . . . . . . . . . . . . . . # # . . . . . . . \<newline>'',
     ''. . . # # . . . . . . . . . . . . . . . . # # . . . . . . . \<newline>'',
     ''. . . # # . . . . . . . . # # . . . . . . # # . . . . . . . \<newline>'',
     ''. . . # # . . . . . . . . # # . . . . . . # # # # # . . . . \<newline>'',
     ''. . . # # . . . . . . . . # # . . . . . . # # # # # . . . . \<newline>'',
     ''. . . # # . . . . . . . . # # . . . . . . . . . . . . . . . \<newline>'',
     ''. . . # # . . . . . . . . # # . . . . . . . . . . . . . . . \<newline>'',
     ''. . . # # . . . . . . . . # # . . . . . . . . . . . . . . . \<newline>'',
     ''. . . # # . . . . . . . . # # . . . . . . . . . . . . . . . \<newline>'',
     ''. . . # # . . . . . . . . # # . . . . . . . . . . . . . . . \<newline>'',
     ''. . . . . . . . . . . . . # # . . . . . . . . . . . . . . . \<newline>'',
     ''. . . . . . . . . . . . . # # . . . . . . . . . . . . . . .\<newline>'',
     ''. . . . . . . . . . . . . # # . . . . . . . . . . . . . . .\<newline>'']"

definition simple_test_starts :: "(int \<times> int) list" where
  "simple_test_starts =
    [(9, 0), (13, 0), (7, 28), (14, 29), (4, 1), (0, 17), (5, 6),
     (5, 20), (12, 2), (7, 28), (11, 9), (3, 2), (3, 17), (13, 20),
     (1, 1), (9, 10), (14, 6), (2, 0), (9, 28), (8, 6), (11, 6),
     (3, 0), (8, 9), (14, 7), (12, 4)]"

definition simple_test_goals :: "(int \<times> int) list" where
  "simple_test_goals =
    [(11, 20), (2, 19), (6, 5), (4, 18), (9, 20), (7, 0), (2, 25),
     (12, 4), (3, 25), (0, 12), (4, 23), (2, 24), (9, 2), (1, 6),
     (13, 29), (14, 29), (2, 28), (14, 16), (13, 0), (1, 27), (14, 25),
     (10, 20), (12, 28), (2, 29), (1, 29)]"

definition simple_test_lengths :: "int list" where
  "simple_test_lengths =
    [36, 30, 30, 21, 28, 24, 32, 27, 42, 23, 35, 37, 23,
     26, 40, 36, 42, 28, 44, 36, 38, 29, 33, 42, 44]"

definition simple_test_try ::
    "search_function \<Rightarrow> grid_map \<Rightarrow> int \<times> int \<Rightarrow> int \<times> int \<Rightarrow> int \<Rightarrow> report outcome" where
  "simple_test_try search_function task_map start goal task_length =
     (case search_function task_map (fst start) (snd start) (fst goal) (snd goal) of
        Inl e \<Rightarrow> Some (Inl e)
      | Inr r \<Rightarrow>
          if found r then
            obind (make_path (nodes r) (end_node r)) (\<lambda>(path, path_length).
            obind (Some (py_int path_length)) (\<lambda>a.
            obind (Some (py_int (PyInt task_length))) (\<lambda>b.
            let correct = (a = b) in
            obind (Some (draw (other_results r))) (\<lambda>_.
            Some (Inr (PathFound path_length (search_tree_size r) (number_of_steps r) correct))))))
          else Some (Inr PathNotFound))"

definition simple_test :: "search_function \<Rightarrow> int option \<Rightarrow> int \<Rightarrow> report outcome" where
  "simple_test search_function task randint =
     obind (Some (convert_string_to_cells simple_test_map_str)) (\<lambda>task_map.
     let task' = choose_task 25 task randint in
     obind (Some (index simple_test_starts task')) (\<lambda>start.
     obind (Some (index simple_test_goals task')) (\<lambda>goal.
     obind (Some (index simple_test_lengths task')) (\<lambda>task_length.
     except_Exception (simple_test_try search_function task_map start goal task_length)))))"

subsection \<open>\<open>simple_test_not_found\<close>\<close>

definition not_found_map_str :: string where
  "not_found_map_str = concat
    [''\<newline>'',
     ''. . . . . . . . . . . . . . . . . . . . . # # . . . . . . .  \<newline>'',
     ''. . . . . . . . . . . . . . . . . . . . . # # . . . . . . . \<newline>'',
     ''. . . . . . . . . . . . . . . . . . . . . # # . . . . . . . \<newline>'',
     ''. . . # # . . . . . . . . . . . . . . . . # # . . . . . . . \<newline>'',
     ''. . . # # . . . . . . . . # # . . . . . . # # . . . . . . . \<newline>'',
     ''. . . # # . . . . . . . . # # . . . . . . # # # # # . . . . \<newline>'',
     ''. . . # # . . . . . . . . # # . . . . . . # # # # # . . . . \<newline>'',
     ''. . . # # . . . . . . # # # # . . . . . . # . . . . . . . . \<newline>'',
     ''. . . # # . . . . . . # . # # . . . . . . # . . . . . . . . \<newline>'',
     ''. . . # # . . . . . . # . # # . . . . . . # . . . . . . . . \<newline>'',
     ''. . . # # . . . . . . # . # # . . . . . . # . . . . . . . . \<newline>'',
     ''. . . # # . . . . . . # # # # . . . . . . # . . . . . . . . \<newline>'',
     ''. . . . . . . . . . . . . # # . . . . . . # . . . . . . . . \<newline>'',
     ''. . . . . . . . . . . . . # # . . . . . . # . . . . . . . .\<newline>'',
     ''. . . . . . . . . . . . . # # . . . . . . # . . . . . . . .\<newline>'']"

definition not_found_starts :: "(int \<times> int) list" where
  "not_found_starts = [(0, 0), (0, 0)]"

definition not_found_goals :: "(int \<times> int) list" where
  "not_found_goals = [(14, 25), (9, 12)]"

definition simple_test_not_found_try ::
    "search_function \<Rightarrow> grid_map \<Rightarrow> int \<times> int \<Rightarrow> int \<times> int \<Rightarrow> report outcome" where
  "simple_test_not_found_try search_function task_map start goal =
     (case search_function task_map (fst start) (snd start) (fst goal) (snd goal) of
        Inl e \<Rightarrow> Some (Inl e)
      | Inr r \<Rightarrow>
          if \<not> found r then
            obind (Some (draw (other_results r))) (\<lambda>_.
            Some (Inr (NoPathCorrect (search_tree_size r) (number_of_steps r))))
          else
            obind (make_path (nodes r) (end_node r)) (\<lambda>(path, path_length).
            obind (Some (draw (other_results r))) (\<lambda>_.
            Some (Inr (SpuriousPath path_length (search_tree_size r) (number_of_steps r))))))"

definition simple_test_not_found :: "search_function \<Rightarrow> int option \<Rightarrow> int \<Rightarrow> report outcome" where
  "simple_test_not_found search_function task randint =
     obind (Some (convert_string_to_cells not_found_map_str)) (\<lambda>task_map.
     let task' = choose_task 2 task randint in
     obind (Some (index not_found_starts task')) (\<lambda>start.
     obind (Some (index not_found_goals task')) (\<lambda>goal.
     except_Exception (simple_test_not_found_try search_function task_map start goal))))"

subsection \<open>\<open>massive_test\<close>\<close>

text \<open>
  The statistics dictionary, with its four keys as fields. The model also keeps a log of
  what the function does besides: each call of the search function, with the number of
  the task, and each line it prints.
\<close>

record stat =
  corr :: "bool list"
  len :: "pynum list"
  st_size :: "int list"
  steps :: "int list"

datatype event = Invoked nat | Printed report

text \<open>
  The body of the \<open>try\<close> statement for one task. An exception leaves the dictionary as it
  was: nothing is appended before the last statement that can raise.
\<close>

definition massive_test_try ::
    "search_function \<Rightarrow> nat \<Rightarrow> task \<Rightarrow> stat \<Rightarrow> (stat \<times> report) outcome" where
  "massive_test_try search_function task_count t stat =
     (case t of (cells, start_i, start_j, goal_i, goal_j, task_length) \<Rightarrow>
      case search_function cells start_i start_j goal_i goal_j of
        Inl e \<Rightarrow> Some (Inl e)
      | Inr r \<Rightarrow>
          if found r then
            obind (make_path (nodes r) (end_node r)) (\<lambda>(path, path_length).
            obind (Some (py_int path_length)) (\<lambda>a.
            obind (Some (py_int task_length)) (\<lambda>b.
            let correct = (a = b) in
            Some (Inr (stat\<lparr>len := len stat @ [path_length],
                            corr := corr stat @ [correct],
                            st_size := st_size stat @ [search_tree_size r],
                            steps := steps stat @ [number_of_steps r]\<rparr>,
                       TaskPathFound task_count path_length (search_tree_size r)
                         (number_of_steps r) correct)))))
          else
            Some (Inr (stat\<lparr>len := len stat @ [PyFloat 0],
                            corr := corr stat @ [False],
                            st_size := st_size stat @ [search_tree_size r],
                            steps := steps stat @ [number_of_steps r]\<rparr>,
                       TaskPathNotFound task_count)))"

text \<open>
  One round of the \<open>for\<close> loop. The task file is read before the \<open>try\<close> statement, so
  an exception of \<open>read_task_from_file\<close> leaves \<open>massive_test\<close>; the handler of the
  \<open>try\<close> statement, \<open>except Exception\<close>, prints the exception and appends nothing, and
  a raise that is no \<open>Exception\<close> leaves \<open>massive_test\<close> as well.
\<close>

definition massive_test_task ::
    "builtins \<Rightarrow> search_function \<Rightarrow> (nat \<Rightarrow> string list option) \<Rightarrow> nat \<Rightarrow>
     stat \<times> event list \<Rightarrow> (stat \<times> event list) outcome" where
  "massive_test_task B search_function data_path task_count s =
     (case s of (stat, trace) \<Rightarrow>
      case read_task_from_file B (data_path task_count) of
        Inl e \<Rightarrow> Some (Inl e)
      | Inr t \<Rightarrow>
          (case massive_test_try search_function task_count t stat of
             None \<Rightarrow> None
           | Some (Inl e) \<Rightarrow>
               if is_Exception e
               then Some (Inr (stat, trace @ [Invoked task_count, Printed (ExecutionError e)]))
               else Some (Inl e)
           | Some (Inr (stat', line)) \<Rightarrow>
               Some (Inr (stat', trace @ [Invoked task_count, Printed line]))))"

fun massive_test_loop ::
    "builtins \<Rightarrow> search_function \<Rightarrow> (nat \<Rightarrow> string list option) \<Rightarrow> nat list \<Rightarrow>
     stat \<times> event list \<Rightarrow> (stat \<times> event list) outcome" where
  "massive_test_loop B search_function data_path [] s = Some (Inr s)"
| "massive_test_loop B search_function data_path (task_count # rest) s =
     obind (massive_test_task B search_function data_path task_count s)
       (massive_test_loop B search_function data_path rest)"

text \<open>
  \<open>data_path\<close> is the directory: \<open>data_path k\<close> is the text of the file \<open>k.map\<close> in it.
  \<open>num_of_tasks\<close> may be \<open>None\<close>.
\<close>

definition massive_test ::
    "builtins \<Rightarrow> search_function \<Rightarrow> (nat \<Rightarrow> string list option) \<Rightarrow> int option \<Rightarrow>
     (stat \<times> event list) outcome" where
  "massive_test B search_function data_path num_of_tasks =
     (let stat = \<lparr>corr = [], len = [], st_size = [], steps = []\<rparr>
      in case num_of_tasks of
           None \<Rightarrow> Some (Inr (stat, [Printed IncorrectNumberOfTasks]))
         | Some n \<Rightarrow>
             if n \<le> 0 then Some (Inr (stat, [Printed IncorrectNumberOfTasks]))
             else massive_test_loop B search_function data_path [0..<nat n] (stat, []))"

section \<open>Notions the properties are stated with\<close>

text \<open>
  \<open>chain_depth h n k\<close>: following \<open>parent\<close> from \<open>n\<close> reaches a node without parent after
  exactly \<open>k\<close> steps. A chain with a depth is finite and has no cycle.
\<close>

fun chain_depth :: "heap \<Rightarrow> ref \<Rightarrow> nat \<Rightarrow> bool" where
  "chain_depth h n 0 = (parent (h n) = None)"
| "chain_depth h n (Suc k) =
     (case parent (h n) of None \<Rightarrow> False | Some p \<Rightarrow> chain_depth h p k)"

text \<open>
  For a batch: \<open>task_returns\<close> says that the file of task \<open>k\<close> can be read and that the
  \<open>try\<close> block of its round comes to an end, normally or with an exception of class
  \<open>Exception\<close>; \<open>task_recorded\<close> says that the block ran to its last statement.
  \<open>round_entries\<close> is what the round of task \<open>k\<close> adds to the four sequences, and
  \<open>round_line\<close> the line it prints: the entries and the line of the \<open>try\<close> block when it
  ran to its end, no entry and the line of the handler when it raised. \<open>invocations\<close>
  are the tasks on which a log shows a call of the search function, in the order of the
  calls.
\<close>

definition empty_stat :: stat where
  "empty_stat = \<lparr>corr = [], len = [], st_size = [], steps = []\<rparr>"

definition task_recorded ::
    "builtins \<Rightarrow> search_function \<Rightarrow> (nat \<Rightarrow> string list option) \<Rightarrow> nat \<Rightarrow> bool" where
  "task_recorded B search_function data_path k =
     (case read_task_from_file B (data_path k) of
        Inl e \<Rightarrow> False
      | Inr t \<Rightarrow>
          (case massive_test_try search_function k t empty_stat of
             Some (Inr r) \<Rightarrow> True
           | _ \<Rightarrow> False))"

definition task_returns ::
    "builtins \<Rightarrow> search_function \<Rightarrow> (nat \<Rightarrow> string list option) \<Rightarrow> nat \<Rightarrow> bool" where
  "task_returns B search_function data_path k =
     (case read_task_from_file B (data_path k) of
        Inl e \<Rightarrow> False
      | Inr t \<Rightarrow>
          (case massive_test_try search_function k t empty_stat of
             None \<Rightarrow> False
           | Some (Inl e) \<Rightarrow> is_Exception e
           | Some (Inr r) \<Rightarrow> True))"

definition round_entries ::
    "builtins \<Rightarrow> search_function \<Rightarrow> (nat \<Rightarrow> string list option) \<Rightarrow> nat \<Rightarrow> stat" where
  "round_entries B search_function data_path k =
     (case read_task_from_file B (data_path k) of
        Inl e \<Rightarrow> empty_stat
      | Inr t \<Rightarrow>
          (case massive_test_try search_function k t empty_stat of
             Some (Inr (s, line)) \<Rightarrow> s
           | _ \<Rightarrow> empty_stat))"

definition round_line ::
    "builtins \<Rightarrow> search_function \<Rightarrow> (nat \<Rightarrow> string list option) \<Rightarrow> nat \<Rightarrow> report" where
  "round_line B search_function data_path k =
     (case read_task_from_file B (data_path k) of
        Inl e \<Rightarrow> ExecutionError e
      | Inr t \<Rightarrow>
          (case massive_test_try search_function k t empty_stat of
             Some (Inr (s, line)) \<Rightarrow> line
           | Some (Inl e) \<Rightarrow> ExecutionError e
           | None \<Rightarrow> ExecutionError (AlgorithmError [])))"

definition invocations :: "event list \<Rightarrow> nat list" where
  "invocations trace = concat (map (\<lambda>ev. case ev of Invoked k \<Rightarrow> [k] | Printed r \<Rightarrow> []) trace)"

text \<open>
  Walks on a map: \<open>walk_cost\<close> adds \<open>compute_cost\<close> over the consecutive cells of a
  list, so it is a number only when every move is cardinal; \<open>grid_walk m start goal p c\<close>
  says that \<open>p\<close> leads from \<open>start\<close> to \<open>goal\<close> through traversable cells and costs \<open>c\<close>.
\<close>

fun walk_cost :: "(int \<times> int) list \<Rightarrow> error + int" where
  "walk_cost [] = Inr 0"
| "walk_cost [a] = Inr 0"
| "walk_cost (a # b # rest) =
     ebind (compute_cost (fst a) (snd a) (fst b) (snd b)) (\<lambda>c.
     ebind (walk_cost (b # rest)) (\<lambda>c'. Inr (c + c')))"

definition grid_walk :: "grid_map \<Rightarrow> int \<times> int \<Rightarrow> int \<times> int \<Rightarrow> (int \<times> int) list \<Rightarrow> int \<Rightarrow> bool" where
  "grid_walk m start goal p c =
     (p \<noteq> [] \<and> hd p = start \<and> last p = goal
      \<and> list_all (\<lambda>cell. traversable m (fst cell) (snd cell)) p
      \<and> walk_cost p = Inr c)"

text \<open>
  A labelling of the cells by integers is admissible when the label grows by at most 1
  along every move between traversable cells; the labels of two cells then bound the
  cost of every walk between them from below.
\<close>

definition label :: "int list list \<Rightarrow> int \<Rightarrow> int \<Rightarrow> int" where
  "label d a b = d ! nat a ! nat b"

definition step_ok :: "grid_map \<Rightarrow> int list list \<Rightarrow> int \<Rightarrow> int \<Rightarrow> int \<Rightarrow> int \<Rightarrow> bool" where
  "step_ok m d a b a' b' = (traversable m a' b' \<longrightarrow> label d a' b' \<le> label d a b + 1)"

definition labels_ok :: "grid_map \<Rightarrow> int list list \<Rightarrow> bool" where
  "labels_ok m d =
     list_all (\<lambda>a. list_all (\<lambda>b.
         traversable m a b \<longrightarrow>
           step_ok m d a b (a + 1) b \<and> step_ok m d a b (a - 1) b
           \<and> step_ok m d a b a (b + 1) \<and> step_ok m d a b a (b - 1))
       [0..int (snd (get_size m)) - 1])
     [0..int (fst (get_size m)) - 1]"

section \<open>Example data\<close>

text \<open>
  A small search tree: node 2 has parent 1, node 1 has parent 0, node 0 is the root;
  node 3 is its own parent.
\<close>

definition example_tree :: heap where
  "example_tree =
     (\<lambda>r. \<lparr>i = 0, j = 0, g = PyInt 0, parent = None\<rparr>)
       (1 := \<lparr>i = 0, j = 1, g = PyInt 1, parent = Some 0\<rparr>,
        2 := \<lparr>i = 1, j = 1, g = PyFloat (5 / 2), parent = Some 1\<rparr>,
        3 := \<lparr>i = 2, j = 1, g = PyInt 3, parent = Some 3\<rparr>)"

text \<open>
  A directory of five task files \<open>0.map\<close> to \<open>4.map\<close> (a map of one row, start row equal
  to the number of the task) and no sixth file, with conversions that know the lines of
  these files; and a search function that raises on a start in row 2, finds no path from
  row 3 and otherwise returns node 2 of the tree above.
\<close>

definition example_builtins :: builtins where
  "example_builtins =
     \<lparr>int_of_str = map_of
        [(''0\<newline>'', 0), (''1\<newline>'', 1), (''2\<newline>'', 2), (''3\<newline>'', 3),
         (''4\<newline>'', 4)],
      float_of_str = map_of [(''2.5\<newline>'', PyFloat (5 / 2)), (''7.0\<newline>'', PyFloat 7)]\<rparr>"

definition example_dir :: "nat \<Rightarrow> string list option" where
  "example_dir k =
     (if k < 5 then
        Some [''1\<newline>'', ''2\<newline>'', ''. #\<newline>'',
              (if k = 0 then ''0\<newline>'' else if k = 1 then ''1\<newline>''
               else if k = 2 then ''2\<newline>'' else if k = 3 then ''3\<newline>''
               else ''4\<newline>''),
              ''0\<newline>'', ''0\<newline>'', ''0\<newline>'',
              (if k = 4 then ''7.0\<newline>'' else ''2.5\<newline>'')]
      else None)"

definition example_search :: search_function where
  "example_search task_map start_i start_j goal_i goal_j =
     (if start_i = 2 then Inl (AlgorithmError ''crash'')
      else if start_i = 3 then
        Inr \<lparr>found = False, end_node = None, number_of_steps = 9, search_tree_size = 4,
             other_results = [], nodes = example_tree\<rparr>
      else
        Inr \<lparr>found = True, end_node = Some 2, number_of_steps = 3, search_tree_size = 6,
             other_results = [[0, 1, 2]], nodes = example_tree\<rparr>)"

text \<open>The same search function, interrupted from the keyboard on a start in row 2.\<close>

definition interrupted_search :: search_function where
  "interrupted_search task_map start_i start_j goal_i goal_j =
     (if start_i = 2 then Inl KeyboardInterrupt
      else example_search task_map start_i start_j goal_i goal_j)"


text \<open>
  Two more search functions: one reports a path of length 36 (a goal node with the start
  node as parent), one reports that there is no path.
\<close>

definition found_36_result :: search_result where
  "found_36_result =
     \<lparr>found = True, end_node = Some 1, number_of_steps = 200, search_tree_size = 250,
      other_results = [],
      nodes = (\<lambda>r. \<lparr>i = 9, j = 0, g = PyInt 0, parent = None\<rparr>)
                (1 := \<lparr>i = 11, j = 20, g = PyInt 36, parent = Some 0\<rparr>)\<rparr>"

definition found_36_search :: search_function where
  "found_36_search task_map start_i start_j goal_i goal_j = Inr found_36_result"

definition no_path_result :: search_result where
  "no_path_result =
     \<lparr>found = False, end_node = None, number_of_steps = 315, search_tree_size = 315,
      other_results = [[], []], nodes = example_tree\<rparr>"

definition no_path_search :: search_function where
  "no_path_search task_map start_i start_j goal_i goal_j = Inr no_path_result"

section \<open>The two maps as matrices\<close>

text \<open>What \<open>convert_string_to_cells\<close> makes of the two map texts: 15 rows of 30 cells.\<close>

definition simple_test_cells :: "int list list" where
  "simple_test_cells =
    [[0, 0, 0, 0, 0, 0, 0, 0, 0, 0, 0, 0, 0, 0, 0, 0, 0, 0, 0, 0, 0, 1, 1, 0, 0, 0, 0, 0, 0, 0],
     [0, 0, 0, 0, 0, 0, 0, 0, 0, 0, 0, 0, 0, 0, 0, 0, 0, 0, 0, 0, 0, 1, 1, 0, 0, 0, 0, 0, 0, 0],
     [0, 0, 0, 0, 0, 0, 0, 0, 0, 0, 0, 0, 0, 0, 0, 0, 0, 0, 0, 0, 0, 1, 1, 0, 0, 0, 0, 0, 0, 0],
     [0, 0, 0, 1, 1, 0, 0, 0, 0, 0, 0, 0, 0, 0, 0, 0, 0, 0, 0, 0, 0, 1, 1, 0, 0, 0, 0, 0, 0, 0],
     [0, 0, 0, 1, 1, 0, 0, 0, 0, 0, 0, 0, 0, 1, 1, 0, 0, 0, 0, 0, 0, 1, 1, 0, 0, 0, 0, 0, 0, 0],
     [0, 0, 0, 1, 1, 0, 0, 0, 0, 0, 0, 0, 0, 1, 1, 0, 0, 0, 0, 0, 0, 1, 1, 1, 1, 1, 0, 0, 0, 0],
     [0, 0, 0, 1, 1, 0, 0, 0, 0, 0, 0, 0, 0, 1, 1, 0, 0, 0, 0, 0, 0, 1, 1, 1, 1, 1, 0, 0, 0, 0],
     [0, 0, 0, 1, 1, 0, 0, 0, 0, 0, 0, 0, 0, 1, 1, 0, 0, 0, 0, 0, 0, 0, 0, 0, 0, 0, 0, 0, 0, 0],
     [0, 0, 0, 1, 1, 0, 0, 0, 0, 0, 0, 0, 0, 1, 1, 0, 0, 0, 0, 0, 0, 0, 0, 0, 0, 0, 0, 0, 0, 0],
     [0, 0, 0, 1, 1, 0, 0, 0, 0, 0, 0, 0, 0, 1, 1, 0, 0, 0, 0, 0, 0, 0, 0, 0, 0, 0, 0, 0, 0, 0],
     [0, 0, 0, 1, 1, 0, 0, 0, 0, 0, 0, 0, 0, 1, 1, 0, 0, 0, 0, 0, 0, 0, 0, 0, 0, 0, 0, 0, 0, 0],
     [0, 0, 0, 1, 1, 0, 0, 0, 0, 0, 0, 0, 0, 1, 1, 0, 0, 0, 0, 0, 0, 0, 0, 0, 0, 0, 0, 0, 0, 0],
     [0, 0, 0, 0, 0, 0, 0, 0, 0, 0, 0, 0, 0, 1, 1, 0, 0, 0, 0, 0, 0, 0, 0, 0, 0, 0, 0, 0, 0, 0],
     [0, 0, 0, 0, 0, 0, 0, 0, 0, 0, 0, 0, 0, 1, 1, 0, 0, 0, 0, 0, 0, 0, 0, 0, 0, 0, 0, 0, 0, 0],
     [0, 0, 0, 0, 0, 0, 0, 0, 0, 0, 0, 0, 0, 1, 1, 0, 0, 0, 0, 0, 0, 0, 0, 0, 0, 0, 0, 0, 0, 0]]"

definition not_found_cells :: "int list list" where
  "not_found_cells =
    [[0, 0, 0, 0, 0, 0, 0, 0, 0, 0, 0, 0, 0, 0, 0, 0, 0, 0, 0, 0, 0, 1, 1, 0, 0, 0, 0, 0, 0, 0],
     [0, 0, 0, 0, 0, 0, 0, 0, 0, 0, 0, 0, 0, 0, 0, 0, 0, 0, 0, 0, 0, 1, 1, 0, 0, 0, 0, 0, 0, 0],
     [0, 0, 0, 0, 0, 0, 0, 0, 0, 0, 0, 0, 0, 0, 0, 0, 0, 0, 0, 0, 0, 1, 1, 0, 0, 0, 0, 0, 0, 0],
     [0, 0, 0, 1, 1, 0, 0, 0, 0, 0, 0, 0, 0, 0, 0, 0, 0, 0, 0, 0, 0, 1, 1, 0, 0, 0, 0, 0, 0, 0],
     [0, 0, 0, 1, 1, 0, 0, 0, 0, 0, 0, 0, 0, 1, 1, 0, 0, 0, 0, 0, 0, 1, 1, 0, 0, 0, 0, 0, 0, 0],
     [0, 0, 0, 1, 1, 0, 0, 0, 0, 0, 0, 0, 0, 1, 1, 0, 0, 0, 0, 0, 0, 1, 1, 1, 1, 1, 0, 0, 0, 0],
     [0, 0, 0, 1, 1, 0, 0, 0, 0, 0, 0, 0, 0, 1, 1, 0, 0, 0, 0, 0, 0, 1, 1, 1, 1, 1, 0, 0, 0, 0],
     [0, 0, 0, 1, 1, 0, 0, 0, 0, 0, 0, 1, 1, 1, 1, 0, 0, 0, 0, 0, 0, 1, 0, 0, 0, 0, 0, 0, 0, 0],
     [0, 0, 0, 1, 1, 0, 0, 0, 0, 0, 0, 1, 0, 1, 1, 0, 0, 0, 0, 0, 0, 1, 0, 0, 0, 0, 0, 0, 0, 0],
     [0, 0, 0, 1, 1, 0, 0, 0, 0, 0, 0, 1, 0, 1, 1, 0, 0, 0, 0, 0, 0, 1, 0, 0, 0, 0, 0, 0, 0, 0],
     [0, 0, 0, 1, 1, 0, 0, 0, 0, 0, 0, 1, 0, 1, 1, 0, 0, 0, 0, 0, 0, 1, 0, 0, 0, 0, 0, 0, 0, 0],
     [0, 0, 0, 1, 1, 0, 0, 0, 0, 0, 0, 1, 1, 1, 1, 0, 0, 0, 0, 0, 0, 1, 0, 0, 0, 0, 0, 0, 0, 0],
     [0, 0, 0, 0, 0, 0, 0, 0, 0, 0, 0, 0, 0, 1, 1, 0, 0, 0, 0, 0, 0, 1, 0, 0, 0, 0, 0, 0, 0, 0],
     [0, 0, 0, 0, 0, 0, 0, 0, 0, 0, 0, 0, 0, 1, 1, 0, 0, 0, 0, 0, 0, 1, 0, 0, 0, 0, 0, 0, 0, 0],
     [0, 0, 0, 0, 0, 0, 0, 0, 0, 0, 0, 0, 0, 1, 1, 0, 0, 0, 0, 0, 0, 1, 0, 0, 0, 0, 0, 0, 0, 0]]"

text \<open>
  For task 0 of \<open>simple_test\<close>: the distance of every cell from the start (9, 0), with 0
  on the blocked cells, and a walk from the start to the goal (11, 20).
\<close>

definition simple_test_labels :: "int list list" where
  "simple_test_labels =
    [[9, 10, 11, 12, 13, 14, 15, 16, 17, 18, 19, 20, 21, 22, 23, 24, 25, 26, 27, 28, 29, 0, 0, 48, 47, 46, 45, 46, 47, 48],
     [8, 9, 10, 11, 12, 13, 14, 15, 16, 17, 18, 19, 20, 21, 22, 23, 24, 25, 26, 27, 28, 0, 0, 47, 46, 45, 44, 45, 46, 47],
     [7, 8, 9, 10, 11, 12, 13, 14, 15, 16, 17, 18, 19, 20, 21, 22, 23, 24, 25, 26, 27, 0, 0, 46, 45, 44, 43, 44, 45, 46],
     [6, 7, 8, 0, 0, 13, 14, 15, 16, 17, 18, 19, 20, 21, 22, 23, 24, 25, 26, 27, 28, 0, 0, 45, 44, 43, 42, 43, 44, 45],
     [5, 6, 7, 0, 0, 14, 15, 16, 17, 18, 19, 20, 21, 0, 0, 24, 25, 26, 27, 28, 29, 0, 0, 44, 43, 42, 41, 42, 43, 44],
     [4, 5, 6, 0, 0, 15, 16, 17, 18, 19, 20, 21, 22, 0, 0, 25, 26, 27, 28, 29, 30, 0, 0, 0, 0, 0, 40, 41, 42, 43],
     [3, 4, 5, 0, 0, 14, 15, 16, 17, 18, 19, 20, 21, 0, 0, 26, 27, 28, 29, 30, 31, 0, 0, 0, 0, 0, 39, 40, 41, 42],
     [2, 3, 4, 0, 0, 13, 14, 15, 16, 17, 18, 19, 20, 0, 0, 27, 28, 29, 30, 31, 32, 33, 34, 35, 36, 37, 38, 39, 40, 41],
     [1, 2, 3, 0, 0, 12, 13, 14, 15, 16, 17, 18, 19, 0, 0, 28, 29, 30, 31, 32, 33, 34, 35, 36, 37, 38, 39, 40, 41, 42],
     [0, 1, 2, 0, 0, 11, 12, 13, 14, 15, 16, 17, 18, 0, 0, 29, 30, 31, 32, 33, 34, 35, 36, 37, 38, 39, 40, 41, 42, 43],
     [1, 2, 3, 0, 0, 10, 11, 12, 13, 14, 15, 16, 17, 0, 0, 30, 31, 32, 33, 34, 35, 36, 37, 38, 39, 40, 41, 42, 43, 44],
     [2, 3, 4, 0, 0, 9, 10, 11, 12, 13, 14, 15, 16, 0, 0, 31, 32, 33, 34, 35, 36, 37, 38, 39, 40, 41, 42, 43, 44, 45],
     [3, 4, 5, 6, 7, 8, 9, 10, 11, 12, 13, 14, 15, 0, 0, 32, 33, 34, 35, 36, 37, 38, 39, 40, 41, 42, 43, 44, 45, 46],
     [4, 5, 6, 7, 8, 9, 10, 11, 12, 13, 14, 15, 16, 0, 0, 33, 34, 35, 36, 37, 38, 39, 40, 41, 42, 43, 44, 45, 46, 47],
     [5, 6, 7, 8, 9, 10, 11, 12, 13, 14, 15, 16, 17, 0, 0, 34, 35, 36, 37, 38, 39, 40, 41, 42, 43, 44, 45, 46, 47, 48]]"

definition simple_test_path0 :: "(int \<times> int) list" where
  "simple_test_path0 =
    [(9, 0), (8, 0), (7, 0), (6, 0), (5, 0), (4, 0), (3, 0), (2, 0),
     (2, 1), (2, 2), (2, 3), (2, 4), (2, 5), (3, 5), (3, 6), (3, 7),
     (3, 8), (3, 9), (3, 10), (3, 11), (3, 12), (3, 13), (3, 14), (3, 15),
     (4, 15), (5, 15), (6, 15), (7, 15), (8, 15), (9, 15), (10, 15), (11, 15),
     (11, 16), (11, 17), (11, 18), (11, 19), (11, 20)]"

section \<open>Properties of the cost model\<close>

text \<open>
  Claim C2. For all four integers, \<open>compute_cost\<close> returns 1 exactly when the Manhattan
  distance of the two cells is 1; the function takes no grid, so traversability cannot
  matter. For every other offset (diagonal, non-adjacent, identical cells) it raises its
  invalid-move exception, which the code spells \<open>ValueError\<close>, and returns no value.
\<close>

theorem compute_cost_cardinal_or_error:
  "compute_cost i1 j1 i2 j2 =
     (if \<bar>i1 - i2\<bar> + \<bar>j1 - j2\<bar> = 1 then Inr 1 else Inl ValueError)
   \<and> (\<bar>i1 - i2\<bar> + \<bar>j1 - j2\<bar> = 1 \<longrightarrow> compute_cost i1 j1 i2 j2 = Inr 1)
   \<and> (\<bar>i1 - i2\<bar> + \<bar>j1 - j2\<bar> \<noteq> 1 \<longrightarrow>
        compute_cost i1 j1 i2 j2 = Inl ValueError \<and> (\<forall>v. compute_cost i1 j1 i2 j2 \<noteq> Inr v))"
  by (simp add: compute_cost_def)

theorem compute_cost_cardinal_or_error_witness:
  "compute_cost 3 4 3 5 = Inr 1 \<and> compute_cost 3 4 2 4 = Inr 1
   \<and> compute_cost 3 4 4 5 = Inl ValueError \<and> compute_cost 3 4 3 4 = Inl ValueError
   \<and> compute_cost 3 4 3 6 = Inl ValueError"
  using compute_cost_cardinal_or_error [of 3 4 3 5]
        compute_cost_cardinal_or_error [of 3 4 2 4]
        compute_cost_cardinal_or_error [of 3 4 4 5]
        compute_cost_cardinal_or_error [of 3 4 3 4]
        compute_cost_cardinal_or_error [of 3 4 3 6]
  by simp

section \<open>Properties of \<open>make_path\<close>\<close>

lemma make_path_loop_root:
  "parent (h n) = None \<Longrightarrow> make_path_loop h n path = Some (path, n)"
  by (subst make_path_loop.simps) simp

lemma make_path_loop_step:
  "parent (h n) = Some p \<Longrightarrow> make_path_loop h n path = make_path_loop h p (path @ [n])"
  by (subst make_path_loop.simps) simp

lemma make_path_loop_chain:
  "chain_depth h n k \<Longrightarrow>
   \<exists>ns r. make_path_loop h n path = Some (path @ ns, r) \<and> length ns = k
     \<and> parent (h r) = None
     \<and> (ns @ [r]) ! 0 = n
     \<and> (\<forall>m<k. parent (h ((ns @ [r]) ! m)) = Some ((ns @ [r]) ! Suc m))"
proof (induction k arbitrary: n path)
  case 0
  then show ?case by (simp add: make_path_loop_root)
next
  case (Suc k)
  from Suc.prems obtain p where p: "parent (h n) = Some p" and d: "chain_depth h p k"
    by (auto split: option.splits)
  from Suc.IH [OF d, of "path @ [n]"] obtain ns r where
    E: "make_path_loop h p (path @ [n]) = Some ((path @ [n]) @ ns, r)"
    and len: "length ns = k" and rt: "parent (h r) = None"
    and first: "(ns @ [r]) ! 0 = p"
    and links: "\<forall>m<k. parent (h ((ns @ [r]) ! m)) = Some ((ns @ [r]) ! Suc m)"
    by blast
  have run: "make_path_loop h n path = Some (path @ (n # ns), r)"
    using p E by (simp add: make_path_loop_step)
  have "parent (h (((n # ns) @ [r]) ! m)) = Some (((n # ns) @ [r]) ! Suc m)"
    if "m < Suc k" for m
  proof (cases m)
    case 0
    with p first show ?thesis by simp
  next
    case (Suc m')
    with that links show ?thesis by simp
  qed
  with run len rt show ?case
    by (intro exI [of _ "n # ns"] exI [of _ r]) simp
qed

lemma make_path_path:
  assumes "chain_depth h n k"
  shows "\<exists>path. make_path h (Some n) = Some (Inr (path, g (h n)))
           \<and> length path = k + 1 \<and> last path = n \<and> parent (h (hd path)) = None
           \<and> (\<forall>m<k. parent (h (path ! Suc m)) = Some (path ! m))"
proof -
  from make_path_loop_chain [OF assms, of "[]"] obtain ns r where
    E: "make_path_loop h n [] = Some (ns, r)"
    and len: "length ns = k" and rt: "parent (h r) = None"
    and first: "(ns @ [r]) ! 0 = n"
    and links: "\<forall>m<k. parent (h ((ns @ [r]) ! m)) = Some ((ns @ [r]) ! Suc m)"
    by auto
  let ?c = "ns @ [r]"
  let ?path = "rev ?c"
  have lc: "length ?c = Suc k" using len by simp
  have "make_path h (Some n) = Some (Inr (?path, g (h n)))"
    using E by (simp add: make_path_def)
  moreover have "length ?path = k + 1" using len by simp
  moreover have "last ?path = n"
    using first by (cases ns) auto
  moreover have "parent (h (hd ?path)) = None"
    using rt by (simp add: hd_rev)
  moreover have "parent (h (?path ! Suc m)) = Some (?path ! m)" if "m < k" for m
  proof -
    have a: "?path ! Suc m = ?c ! (k - Suc m)"
      using that lc by (simp only: rev_nth) simp
    have b: "?path ! m = ?c ! (k - m)"
      using that lc by (subst rev_nth) simp_all
    have "Suc (k - Suc m) = k - m" using that by simp
    with links that a b show ?thesis
      by (metis diff_less zero_less_Suc less_imp_diff_less Suc_diff_Suc diff_Suc_less less_nat_zero_code not_gr_zero)
  qed
  ultimately show ?thesis by blast
qed

text \<open>
  Claim C3. When the chain of parents of the goal node \<open>n\<close> reaches the root after \<open>k\<close>
  steps, \<open>make_path\<close> returns, and the path it returns has exactly \<open>k + 1\<close> nodes, is
  not empty (also for \<open>k = 0\<close>), ends with \<open>n\<close>, begins with a node without parent, and
  is ordered from the root: each node after the first has the node before it as parent.
\<close>

theorem make_path_root_first:
  assumes "chain_depth h n k"
  shows "\<exists>path cost. make_path h (Some n) = Some (Inr (path, cost))
           \<and> length path = k + 1 \<and> path \<noteq> [] \<and> last path = n
           \<and> parent (h (hd path)) = None
           \<and> (\<forall>m<k. parent (h (path ! Suc m)) = Some (path ! m))"
proof -
  from make_path_path [OF assms] obtain path where
    "make_path h (Some n) = Some (Inr (path, g (h n)))"
    "length path = k + 1" "last path = n" "parent (h (hd path)) = None"
    "\<forall>m<k. parent (h (path ! Suc m)) = Some (path ! m)"
    by blast
  moreover from \<open>length path = k + 1\<close> have "path \<noteq> []" by auto
  ultimately show ?thesis by blast
qed

theorem make_path_root_first_witness:
  "chain_depth example_tree 2 2
   \<and> (\<exists>path cost. make_path example_tree (Some 2) = Some (Inr (path, cost))
        \<and> length path = 2 + 1 \<and> path \<noteq> [] \<and> last path = 2
        \<and> parent (example_tree (hd path)) = None
        \<and> (\<forall>m<2. parent (example_tree (path ! Suc m)) = Some (path ! m)))"
proof -
  have d: "chain_depth example_tree 2 2" by code_simp
  from d make_path_root_first [OF d] show ?thesis by simp
qed

text \<open>
  Claim C4. The cost \<open>make_path\<close> returns is the field \<open>g\<close> of the goal node, whatever
  the nodes of the chain hold: it is read from the goal and not added up along the
  path. For a node without parent the result is the one-element path of that node,
  with the node's own \<open>g\<close>.
\<close>

theorem make_path_cost_is_goal_g:
  "(chain_depth h n k \<longrightarrow>
      (\<exists>path. make_path h (Some n) = Some (Inr (path, g (h n)))))
   \<and> (parent (h n) = None \<longrightarrow> make_path h (Some n) = Some (Inr ([n], g (h n))))"
proof (intro conjI impI)
  assume "chain_depth h n k"
  from make_path_path [OF this] show "\<exists>path. make_path h (Some n) = Some (Inr (path, g (h n)))"
    by blast
next
  assume "parent (h n) = None"
  then show "make_path h (Some n) = Some (Inr ([n], g (h n)))"
    by (simp add: make_path_def make_path_loop_root)
qed

theorem make_path_cost_is_goal_g_witness:
  "chain_depth example_tree 2 2
   \<and> (\<exists>path. make_path example_tree (Some 2) = Some (Inr (path, PyFloat (5 / 2))))
   \<and> parent (example_tree 0) = None
   \<and> make_path example_tree (Some 0) = Some (Inr ([0], PyInt 0))"
proof -
  have d: "chain_depth example_tree 2 2" by code_simp
  have r: "parent (example_tree 0) = None" by (simp add: example_tree_def)
  have g2: "g (example_tree 2) = PyFloat (5 / 2)" by (simp add: example_tree_def)
  have g0: "g (example_tree 0) = PyInt 0" by (simp add: example_tree_def)
  have "\<exists>path. make_path example_tree (Some 2) = Some (Inr (path, PyFloat (5 / 2)))"
    using make_path_cost_is_goal_g [of example_tree 2 2] d g2 by simp
  moreover have "make_path example_tree (Some 0) = Some (Inr ([0], PyInt 0))"
    using make_path_cost_is_goal_g [of example_tree 0 0] r g0 by simp
  ultimately show ?thesis using d r by blast
qed

text \<open>
  The precondition is needed: the loop returns only when the chain of parents has a
  depth, so on a cycle \<open>make_path\<close> does not return.
\<close>

lemma make_path_loop_returns_only_on_chain:
  assumes ret: "make_path_loop h n path = Some r"
  shows "\<exists>k. chain_depth h n k"
proof (rule make_path_loop.raw_induct
    [where P = "\<lambda>h n path r. \<exists>k. chain_depth h n k" and h = h and current = n
       and path = path])
  fix loop h' current path' r'
  assume IH: "\<And>h current path r. loop h current path = Some r \<Longrightarrow> \<exists>k. chain_depth h current k"
    and eq: "(case parent (h' current) of
                None \<Rightarrow> Some (path', current)
              | Some p \<Rightarrow> loop h' p (path' @ [current])) = Some r'"
  show "\<exists>k. chain_depth h' current k"
  proof (cases "parent (h' current)")
    case None
    then have "chain_depth h' current 0" by simp
    then show ?thesis by blast
  next
    case (Some p)
    with eq have "loop h' p (path' @ [current]) = Some r'" by simp
    from IH [OF this] obtain k where "chain_depth h' p k" by blast
    with Some have "chain_depth h' current (Suc k)" by simp
    then show ?thesis by blast
  qed
next
  show "make_path_loop h n path = Some r" by (rule ret)
qed

lemma make_path_on_cycle: "make_path example_tree (Some 3) = None"
proof -
  have "\<not> chain_depth example_tree 3 k" for k
    by (induction k) (simp_all add: example_tree_def)
  with make_path_loop_returns_only_on_chain [of example_tree 3 "[]"]
  have "make_path_loop example_tree 3 [] = None"
    by (cases "make_path_loop example_tree 3 []") auto
  then show ?thesis by (simp add: make_path_def)
qed

section \<open>Properties of \<open>massive_test\<close>\<close>

lemma massive_test_try_shape:
  "massive_test_try sf k t stat =
     (case massive_test_try sf k t empty_stat of
        None \<Rightarrow> None
      | Some (Inl e) \<Rightarrow> Some (Inl e)
      | Some (Inr (s0, line)) \<Rightarrow>
          Some (Inr (\<lparr>corr = corr stat @ corr s0, len = len stat @ len s0,
                       st_size = st_size stat @ st_size s0, steps = steps stat @ steps s0\<rparr>, line)))"
proof -
  obtain cells si sj gi gj el where t: "t = (cells, si, sj, gi, gj, el)"
    by (cases t) auto
  show ?thesis
  proof (cases "sf cells si sj gi gj")
    case (Inl e)
    then show ?thesis by (simp add: massive_test_try_def t)
  next
    case (Inr r)
    show ?thesis
    proof (cases "found r")
      case False
      with Inr show ?thesis by (simp add: massive_test_try_def t empty_stat_def)
    next
      case True
      show ?thesis
      proof (cases "make_path (nodes r) (end_node r)")
        case None
        with Inr True show ?thesis by (simp add: massive_test_try_def t)
      next
        case (Some x)
        show ?thesis
        proof (cases x)
          case (Inl e)
          with Some Inr True show ?thesis by (simp add: massive_test_try_def t)
        next
          case inr: (Inr pl)
          obtain path L where pl: "pl = (path, L)" by (cases pl) auto
          show ?thesis
          proof (cases "py_int L")
            case (Inl e)
            with Some inr pl Inr True show ?thesis by (simp add: massive_test_try_def t)
          next
            case a: (Inr a)
            show ?thesis
            proof (cases "py_int el")
              case (Inl e)
              with a Some inr pl Inr True show ?thesis by (simp add: massive_test_try_def t)
            next
              case b: (Inr b)
              with a Some inr pl Inr True show ?thesis
                by (simp add: massive_test_try_def t empty_stat_def Let_def)
            qed
          qed
        qed
      qed
    qed
  qed
qed

lemma massive_test_try_lengths:
  assumes "massive_test_try sf k t empty_stat = Some (Inr (s0, line))"
  shows "length (corr s0) = 1 \<and> length (len s0) = 1 \<and> length (st_size s0) = 1
         \<and> length (steps s0) = 1"
proof -
  obtain cells si sj gi gj el where t: "t = (cells, si, sj, gi, gj, el)"
    by (cases t) auto
  show ?thesis
  proof (cases "sf cells si sj gi gj")
    case (Inl e)
    with assms show ?thesis by (simp add: massive_test_try_def t)
  next
    case (Inr r)
    show ?thesis
    proof (cases "found r")
      case False
      with Inr assms show ?thesis by (auto simp add: massive_test_try_def t empty_stat_def)
    next
      case True
      show ?thesis
      proof (cases "make_path (nodes r) (end_node r)")
        case None
        with Inr True assms show ?thesis by (simp add: massive_test_try_def t)
      next
        case (Some x)
        show ?thesis
        proof (cases x)
          case (Inl e)
          with Some Inr True assms show ?thesis by (simp add: massive_test_try_def t)
        next
          case inr: (Inr pl)
          obtain path L where pl: "pl = (path, L)" by (cases pl) auto
          show ?thesis
          proof (cases "py_int L")
            case (Inl e)
            with Some inr pl Inr True assms show ?thesis by (simp add: massive_test_try_def t)
          next
            case a: (Inr a)
            show ?thesis
            proof (cases "py_int el")
              case (Inl e)
              with a Some inr pl Inr True assms show ?thesis by (simp add: massive_test_try_def t)
            next
              case b: (Inr b)
              with a Some inr pl Inr True assms show ?thesis
                by (auto simp add: massive_test_try_def t empty_stat_def Let_def)
            qed
          qed
        qed
      qed
    qed
  qed
qed

lemma massive_test_loop_append:
  "massive_test_loop B sf dp (xs @ ys) s =
     obind (massive_test_loop B sf dp xs s) (massive_test_loop B sf dp ys)"
proof (induction xs arbitrary: s)
  case Nil
  show ?case by simp
next
  case (Cons x xs)
  show ?case
  proof (cases "massive_test_task B sf dp x s")
    case None
    then show ?thesis by simp
  next
    case (Some r)
    then show ?thesis by (cases r) (simp_all add: Cons.IH)
  qed
qed

lemma massive_test_task_round:
  assumes "task_returns B sf dp k"
  shows "massive_test_task B sf dp k (stat, trace) =
           Some (Inr (\<lparr>corr = corr stat @ corr (round_entries B sf dp k),
                        len = len stat @ len (round_entries B sf dp k),
                        st_size = st_size stat @ st_size (round_entries B sf dp k),
                        steps = steps stat @ steps (round_entries B sf dp k)\<rparr>,
                      trace @ [Invoked k, Printed (round_line B sf dp k)]))"
proof -
  from assms obtain t where t: "read_task_from_file B (dp k) = Inr t"
    by (auto simp: task_returns_def split: sum.splits)
  from assms t obtain x where x: "massive_test_try sf k t empty_stat = Some x"
    by (auto simp: task_returns_def split: option.splits)
  show ?thesis
  proof (cases x)
    case (Inl e)
    with assms t x have ex: "is_Exception e" by (simp add: task_returns_def)
    from x Inl have "massive_test_try sf k t stat = Some (Inl e)"
      by (subst massive_test_try_shape) simp
    with t x Inl ex show ?thesis
      by (simp add: massive_test_task_def round_entries_def round_line_def empty_stat_def)
  next
    case (Inr r)
    obtain s0 line where r: "r = (s0, line)" by (cases r) auto
    from x Inr r have "massive_test_try sf k t stat =
        Some (Inr (\<lparr>corr = corr stat @ corr s0, len = len stat @ len s0,
                     st_size = st_size stat @ st_size s0, steps = steps stat @ steps s0\<rparr>, line))"
      by (subst massive_test_try_shape) simp
    with t x Inr r show ?thesis
      by (simp add: massive_test_task_def round_entries_def round_line_def)
  qed
qed

lemma massive_test_loop_batch:
  assumes "\<forall>k\<in>set ks. task_returns B sf dp k"
  shows "massive_test_loop B sf dp ks (stat, trace) =
           Some (Inr (\<lparr>corr = corr stat @ concat (map (\<lambda>k. corr (round_entries B sf dp k)) ks),
                        len = len stat @ concat (map (\<lambda>k. len (round_entries B sf dp k)) ks),
                        st_size = st_size stat
                          @ concat (map (\<lambda>k. st_size (round_entries B sf dp k)) ks),
                        steps = steps stat @ concat (map (\<lambda>k. steps (round_entries B sf dp k)) ks)\<rparr>,
                      trace @ concat (map (\<lambda>k. [Invoked k, Printed (round_line B sf dp k)]) ks)))"
  using assms
proof (induction ks arbitrary: stat trace)
  case Nil
  show ?case by simp
next
  case (Cons k ks)
  from Cons.prems have rk: "task_returns B sf dp k" and rest: "\<forall>k\<in>set ks. task_returns B sf dp k"
    by simp_all
  show ?case
    by (simp add: massive_test_task_round [OF rk] Cons.IH [OF rest])
qed

lemma round_entries_lengths:
  "length (corr (round_entries B sf dp k)) = (if task_recorded B sf dp k then 1 else 0)"
  "length (len (round_entries B sf dp k)) = (if task_recorded B sf dp k then 1 else 0)"
  "length (st_size (round_entries B sf dp k)) = (if task_recorded B sf dp k then 1 else 0)"
  "length (steps (round_entries B sf dp k)) = (if task_recorded B sf dp k then 1 else 0)"
proof -
  have "length (corr (round_entries B sf dp k)) = (if task_recorded B sf dp k then 1 else 0)
      \<and> length (len (round_entries B sf dp k)) = (if task_recorded B sf dp k then 1 else 0)
      \<and> length (st_size (round_entries B sf dp k)) = (if task_recorded B sf dp k then 1 else 0)
      \<and> length (steps (round_entries B sf dp k)) = (if task_recorded B sf dp k then 1 else 0)"
  proof (cases "read_task_from_file B (dp k)")
    case (Inl e)
    then show ?thesis by (simp add: round_entries_def task_recorded_def empty_stat_def)
  next
    case t: (Inr t)
    show ?thesis
    proof (cases "massive_test_try sf k t empty_stat")
      case None
      with t show ?thesis by (simp add: round_entries_def task_recorded_def empty_stat_def)
    next
      case (Some x)
      show ?thesis
      proof (cases x)
        case (Inl e)
        with t Some show ?thesis
          by (simp add: round_entries_def task_recorded_def empty_stat_def)
      next
        case (Inr r)
        obtain s0 line where r: "r = (s0, line)" by (cases r) auto
        from Some Inr r have e: "massive_test_try sf k t empty_stat = Some (Inr (s0, line))"
          by simp
        from massive_test_try_lengths [OF e] t e show ?thesis
          by (simp add: round_entries_def task_recorded_def)
      qed
    qed
  qed
  then show
    "length (corr (round_entries B sf dp k)) = (if task_recorded B sf dp k then 1 else 0)"
    "length (len (round_entries B sf dp k)) = (if task_recorded B sf dp k then 1 else 0)"
    "length (st_size (round_entries B sf dp k)) = (if task_recorded B sf dp k then 1 else 0)"
    "length (steps (round_entries B sf dp k)) = (if task_recorded B sf dp k then 1 else 0)"
    by simp_all
qed

lemma length_concat_rounds:
  assumes "\<And>k. length (f k) = (if P k then 1 else 0)"
  shows "length (concat (map f ks)) = length (filter P ks)"
  by (induction ks) (simp_all add: assms)

lemma invocations_rounds:
  "invocations (concat (map (\<lambda>k. [Invoked k, Printed (line k)]) ks)) = ks"
  by (induction ks) (simp_all add: invocations_def)

lemma round_raise:
  assumes "read_task_from_file B (dp k) = Inr t"
    and "massive_test_try sf k t empty_stat = Some (Inl e)"
  shows "round_entries B sf dp k = empty_stat" and "round_line B sf dp k = ExecutionError e"
    and "\<not> task_recorded B sf dp k"
  using assms by (simp_all add: round_entries_def round_line_def task_recorded_def)

lemma massive_test_task_caught:
  assumes "read_task_from_file B (dp k) = Inr t"
    and "massive_test_try sf k t empty_stat = Some (Inl e)"
  shows "massive_test_task B sf dp k (stat, trace) =
           (if is_Exception e
            then Some (Inr (stat, trace @ [Invoked k, Printed (ExecutionError e)]))
            else Some (Inl e))"
proof -
  from assms(2) have "massive_test_try sf k t stat = Some (Inl e)"
    by (subst massive_test_try_shape) simp
  with assms(1) show ?thesis by (simp add: massive_test_task_def)
qed

lemma massive_test_try_raises:
  "sf cells si sj gi gj = Inl e \<Longrightarrow>
     massive_test_try sf k (cells, si, sj, gi, gj, el) stat = Some (Inl e)"
  "sf cells si sj gi gj = Inr res \<Longrightarrow> found res \<Longrightarrow> end_node res = None \<Longrightarrow>
     massive_test_try sf k (cells, si, sj, gi, gj, el) stat = Some (Inl AttributeError)"
  "sf cells si sj gi gj = Inr res \<Longrightarrow> found res \<Longrightarrow>
     make_path (nodes res) (end_node res) = Some (Inr (path, L)) \<Longrightarrow> py_int L = Inl e \<Longrightarrow>
     massive_test_try sf k (cells, si, sj, gi, gj, el) stat = Some (Inl e)"
  "sf cells si sj gi gj = Inr res \<Longrightarrow> found res \<Longrightarrow>
     make_path (nodes res) (end_node res) = Some (Inr (path, L)) \<Longrightarrow> py_int L = Inr a \<Longrightarrow>
     py_int el = Inl e \<Longrightarrow>
     massive_test_try sf k (cells, si, sj, gi, gj, el) stat = Some (Inl e)"
  by (simp_all add: massive_test_try_def make_path_def)

lemma massive_test_try_not_found:
  "sf cells si sj gi gj = Inr res \<Longrightarrow> \<not> found res \<Longrightarrow>
     massive_test_try sf k (cells, si, sj, gi, gj, el) empty_stat =
       Some (Inr (\<lparr>corr = [False], len = [PyFloat 0], st_size = [search_tree_size res],
                    steps = [number_of_steps res]\<rparr>, TaskPathNotFound k))"
  by (simp add: massive_test_try_def empty_stat_def)

lemma massive_test_task_raise:
  assumes "read_task_from_file B (dp k) = Inr (cells, si, sj, gi, gj, el)"
    and "sf cells si sj gi gj = Inl e" and "is_Exception e"
  shows "massive_test_task B sf dp k (stat, trace) =
           Some (Inr (stat, trace @ [Invoked k, Printed (ExecutionError e)]))"
  using assms by (simp add: massive_test_task_def massive_test_try_def)

lemma upt_split_at: "k < N \<Longrightarrow> [0..<N] = [0..<k] @ k # [Suc k..<N]"
  by (metis le_add_diff_inverse less_imp_le_nat upt_add_eq_append upt_conv_Cons zero_le)

lemma massive_test_abort:
  assumes "k < N" and "\<forall>k'<k. task_returns B sf dp k'"
    and "\<And>stat trace. massive_test_task B sf dp k (stat, trace) = Some (Inl e)"
  shows "massive_test B sf dp (Some (int N)) = Some (Inl e)"
proof -
  from assms(2) have "\<forall>k'\<in>set [0..<k]. task_returns B sf dp k'" by simp
  from massive_test_loop_batch [OF this]
  have "massive_test_loop B sf dp ([0..<k] @ k # [Suc k..<N])
          (\<lparr>corr = [], len = [], st_size = [], steps = []\<rparr>, []) = Some (Inl e)"
    by (simp add: massive_test_loop_append assms(3))
  with assms(1) show ?thesis
    by (simp add: massive_test_def upt_split_at [symmetric])
qed

text \<open>
  Claim C1, as the code has it. In a batch of \<open>N > 0\<close> tasks whose files can be read
  and whose rounds return, \<open>massive_test\<close> returns normally. Its four sequences are the
  entries of the rounds one after the other, in the order of the tasks, and its log is a
  call of the search function and a printed line for each task. A round whose \<open>try\<close>
  block ran to its end gives exactly one entry to each sequence; a round whose block
  raised gives none, whatever raised: the search function, \<open>make_path\<close> on a missing
  goal node, or \<open>int\<close> on one of the two lengths. Such an exception is caught and
  printed when it is of class \<open>Exception\<close>; otherwise it leaves \<open>massive_test\<close>, which
  then returns no dictionary and runs no later task. A task for which no path is
  reported has the entry \<open>False\<close>, \<open>0.0\<close>.
\<close>

theorem massive_test_isolates_failures:
  "(0 < N \<and> (\<forall>k<N. task_returns B sf dp k) \<longrightarrow>
      massive_test B sf dp (Some (int N)) =
           Some (Inr (\<lparr>corr = concat (map (\<lambda>k. corr (round_entries B sf dp k)) [0..<N]),
                        len = concat (map (\<lambda>k. len (round_entries B sf dp k)) [0..<N]),
                        st_size = concat (map (\<lambda>k. st_size (round_entries B sf dp k)) [0..<N]),
                        steps = concat (map (\<lambda>k. steps (round_entries B sf dp k)) [0..<N])\<rparr>,
                      concat (map (\<lambda>k. [Invoked k, Printed (round_line B sf dp k)]) [0..<N]))))
       \<and> length (concat (map (\<lambda>k. corr (round_entries B sf dp k)) [0..<N]))
           = length (filter (task_recorded B sf dp) [0..<N])
       \<and> length (concat (map (\<lambda>k. len (round_entries B sf dp k)) [0..<N]))
           = length (filter (task_recorded B sf dp) [0..<N])
       \<and> length (concat (map (\<lambda>k. st_size (round_entries B sf dp k)) [0..<N]))
           = length (filter (task_recorded B sf dp) [0..<N])
       \<and> length (concat (map (\<lambda>k. steps (round_entries B sf dp k)) [0..<N]))
           = length (filter (task_recorded B sf dp) [0..<N])
       \<and> invocations (concat (map (\<lambda>k. [Invoked k, Printed (round_line B sf dp k)]) [0..<N]))
           = [0..<N]
       \<and> (\<forall>k. length (corr (round_entries B sf dp k)) = (if task_recorded B sf dp k then 1 else 0)
             \<and> length (len (round_entries B sf dp k)) = (if task_recorded B sf dp k then 1 else 0)
             \<and> length (st_size (round_entries B sf dp k))
                 = (if task_recorded B sf dp k then 1 else 0)
             \<and> length (steps (round_entries B sf dp k))
                 = (if task_recorded B sf dp k then 1 else 0))
       \<and> (\<forall>k t e stat trace.
             read_task_from_file B (dp k) = Inr t
             \<and> massive_test_try sf k t empty_stat = Some (Inl e)
             \<longrightarrow> round_entries B sf dp k = empty_stat
               \<and> round_line B sf dp k = ExecutionError e
               \<and> \<not> task_recorded B sf dp k
               \<and> massive_test_task B sf dp k (stat, trace) =
                   (if is_Exception e
                    then Some (Inr (stat, trace @ [Invoked k, Printed (ExecutionError e)]))
                    else Some (Inl e)))
       \<and> (\<forall>k cells si sj gi gj el e stat.
             sf cells si sj gi gj = Inl e
             \<longrightarrow> massive_test_try sf k (cells, si, sj, gi, gj, el) stat = Some (Inl e))
       \<and> (\<forall>k cells si sj gi gj el res stat.
             sf cells si sj gi gj = Inr res \<and> found res \<and> end_node res = None
             \<longrightarrow> massive_test_try sf k (cells, si, sj, gi, gj, el) stat
                   = Some (Inl AttributeError))
       \<and> (\<forall>k cells si sj gi gj el res path L e stat.
             sf cells si sj gi gj = Inr res \<and> found res
             \<and> make_path (nodes res) (end_node res) = Some (Inr (path, L))
             \<and> (py_int L = Inl e \<or> (\<exists>a. py_int L = Inr a \<and> py_int el = Inl e))
             \<longrightarrow> massive_test_try sf k (cells, si, sj, gi, gj, el) stat = Some (Inl e))
       \<and> (\<forall>k cells si sj gi gj el res.
             sf cells si sj gi gj = Inr res \<and> \<not> found res
             \<longrightarrow> massive_test_try sf k (cells, si, sj, gi, gj, el) empty_stat =
                   Some (Inr (\<lparr>corr = [False], len = [PyFloat 0],
                                st_size = [search_tree_size res],
                                steps = [number_of_steps res]\<rparr>, TaskPathNotFound k)))
       \<and> (\<forall>k t e.
             k < N \<and> (\<forall>k'<k. task_returns B sf dp k')
             \<and> read_task_from_file B (dp k) = Inr t
             \<and> massive_test_try sf k t empty_stat = Some (Inl e) \<and> \<not> is_Exception e
             \<longrightarrow> massive_test B sf dp (Some (int N)) = Some (Inl e))"
proof (intro conjI allI impI)
  assume a: "0 < N \<and> (\<forall>k<N. task_returns B sf dp k)"
  then have "\<forall>k\<in>set [0..<N]. task_returns B sf dp k" by simp
  from massive_test_loop_batch [OF this, of "\<lparr>corr = [], len = [], st_size = [], steps = []\<rparr>" "[]"]
    a
  show "massive_test B sf dp (Some (int N)) =
           Some (Inr (\<lparr>corr = concat (map (\<lambda>k. corr (round_entries B sf dp k)) [0..<N]),
                        len = concat (map (\<lambda>k. len (round_entries B sf dp k)) [0..<N]),
                        st_size = concat (map (\<lambda>k. st_size (round_entries B sf dp k)) [0..<N]),
                        steps = concat (map (\<lambda>k. steps (round_entries B sf dp k)) [0..<N])\<rparr>,
                      concat (map (\<lambda>k. [Invoked k, Printed (round_line B sf dp k)]) [0..<N])))"
    by (simp add: massive_test_def)
next
  show "length (concat (map (\<lambda>k. corr (round_entries B sf dp k)) [0..<N]))
          = length (filter (task_recorded B sf dp) [0..<N])"
    by (rule length_concat_rounds) (rule round_entries_lengths)
  show "length (concat (map (\<lambda>k. len (round_entries B sf dp k)) [0..<N]))
          = length (filter (task_recorded B sf dp) [0..<N])"
    by (rule length_concat_rounds) (rule round_entries_lengths)
  show "length (concat (map (\<lambda>k. st_size (round_entries B sf dp k)) [0..<N]))
          = length (filter (task_recorded B sf dp) [0..<N])"
    by (rule length_concat_rounds) (rule round_entries_lengths)
  show "length (concat (map (\<lambda>k. steps (round_entries B sf dp k)) [0..<N]))
          = length (filter (task_recorded B sf dp) [0..<N])"
    by (rule length_concat_rounds) (rule round_entries_lengths)
  show "invocations (concat (map (\<lambda>k. [Invoked k, Printed (round_line B sf dp k)]) [0..<N]))
          = [0..<N]"
    by (rule invocations_rounds)
next
  fix k
  show "length (corr (round_entries B sf dp k)) = (if task_recorded B sf dp k then 1 else 0)"
    "length (len (round_entries B sf dp k)) = (if task_recorded B sf dp k then 1 else 0)"
    "length (st_size (round_entries B sf dp k)) = (if task_recorded B sf dp k then 1 else 0)"
    "length (steps (round_entries B sf dp k)) = (if task_recorded B sf dp k then 1 else 0)"
    by (rule round_entries_lengths)+
next
  fix k t e stat trace
  assume a: "read_task_from_file B (dp k) = Inr t
             \<and> massive_test_try sf k t empty_stat = Some (Inl e)"
  then have r: "read_task_from_file B (dp k) = Inr t"
    and x: "massive_test_try sf k t empty_stat = Some (Inl e)" by simp_all
  show "round_entries B sf dp k = empty_stat"
    by (rule round_raise(1) [where B = B and dp = dp and k = k and sf = sf, OF r x])
  show "round_line B sf dp k = ExecutionError e"
    by (rule round_raise(2) [where B = B and dp = dp and k = k and sf = sf, OF r x])
  show "\<not> task_recorded B sf dp k"
    by (rule round_raise(3) [where B = B and dp = dp and k = k and sf = sf, OF r x])
  show "massive_test_task B sf dp k (stat, trace) =
          (if is_Exception e
           then Some (Inr (stat, trace @ [Invoked k, Printed (ExecutionError e)]))
           else Some (Inl e))"
    by (rule massive_test_task_caught [where B = B and dp = dp and k = k and sf = sf, OF r x])
next
  fix k cells si sj gi gj el e stat
  assume x: "sf cells si sj gi gj = Inl e"
  from massive_test_try_raises(1) [where sf = sf, OF x]
  show "massive_test_try sf k (cells, si, sj, gi, gj, el) stat = Some (Inl e)" .
next
  fix k cells si sj gi gj el res stat
  assume "sf cells si sj gi gj = Inr res \<and> found res \<and> end_node res = None"
  then have s: "sf cells si sj gi gj = Inr res" and f: "found res" and n: "end_node res = None"
    by simp_all
  from massive_test_try_raises(2) [where sf = sf, OF s f n]
  show "massive_test_try sf k (cells, si, sj, gi, gj, el) stat = Some (Inl AttributeError)" .
next
  fix k cells si sj gi gj el res path L e stat
  assume a: "sf cells si sj gi gj = Inr res \<and> found res
             \<and> make_path (nodes res) (end_node res) = Some (Inr (path, L))
             \<and> (py_int L = Inl e \<or> (\<exists>a. py_int L = Inr a \<and> py_int el = Inl e))"
  then have s: "sf cells si sj gi gj = Inr res" and f: "found res"
    and m: "make_path (nodes res) (end_node res) = Some (Inr (path, L))" by simp_all
  from a consider "py_int L = Inl e" | a' where "py_int L = Inr a'" "py_int el = Inl e"
    by blast
  then show "massive_test_try sf k (cells, si, sj, gi, gj, el) stat = Some (Inl e)"
  proof cases
    case 1
    from massive_test_try_raises(3) [where sf = sf, OF s f m 1] show ?thesis .
  next
    case 2
    from massive_test_try_raises(4) [where sf = sf, OF s f m 2] show ?thesis .
  qed
next
  fix k cells si sj gi gj el res
  assume "sf cells si sj gi gj = Inr res \<and> \<not> found res"
  then have s: "sf cells si sj gi gj = Inr res" and f: "\<not> found res" by simp_all
  from massive_test_try_not_found [where sf = sf, OF s f]
  show "massive_test_try sf k (cells, si, sj, gi, gj, el) empty_stat =
                   Some (Inr (\<lparr>corr = [False], len = [PyFloat 0],
                                st_size = [search_tree_size res],
                                steps = [number_of_steps res]\<rparr>, TaskPathNotFound k))" .
next
  fix k t e
  assume a: "k < N \<and> (\<forall>k'<k. task_returns B sf dp k')
             \<and> read_task_from_file B (dp k) = Inr t
             \<and> massive_test_try sf k t empty_stat = Some (Inl e) \<and> \<not> is_Exception e"
  then have kN: "k < N" and before: "\<forall>k'<k. task_returns B sf dp k'"
    and r: "read_task_from_file B (dp k) = Inr t"
    and x: "massive_test_try sf k t empty_stat = Some (Inl e)" and ne: "\<not> is_Exception e"
    by simp_all
  have "massive_test_task B sf dp k (stat, trace) = Some (Inl e)" for stat trace
    using massive_test_task_caught [where B = B and dp = dp and k = k and sf = sf, OF r x] ne
    by simp
  from massive_test_abort [OF kN before this]
  show "massive_test B sf dp (Some (int N)) = Some (Inl e)" .
qed

theorem massive_test_isolates_failures_witness:
  "0 < (5::nat)
   \<and> task_returns example_builtins example_search example_dir 0
   \<and> task_returns example_builtins example_search example_dir 1
   \<and> task_returns example_builtins example_search example_dir 2
   \<and> task_returns example_builtins example_search example_dir 3
   \<and> task_returns example_builtins example_search example_dir 4
   \<and> massive_test example_builtins example_search example_dir (Some 5) =
       Some (Inr (\<lparr>corr = concat (map (\<lambda>k. corr (round_entries example_builtins example_search example_dir k)) [0..<5]),
                    len = concat (map (\<lambda>k. len (round_entries example_builtins example_search example_dir k)) [0..<5]),
                    st_size = concat (map (\<lambda>k. st_size (round_entries example_builtins example_search example_dir k)) [0..<5]),
                    steps = concat (map (\<lambda>k. steps (round_entries example_builtins example_search example_dir k)) [0..<5])\<rparr>,
                  concat (map (\<lambda>k. [Invoked k, Printed (round_line example_builtins example_search example_dir k)]) [0..<5])))
   \<and> concat (map (\<lambda>k. corr (round_entries example_builtins example_search example_dir k)) [0..<5])
       = [True, True, False, False]
   \<and> concat (map (\<lambda>k. len (round_entries example_builtins example_search example_dir k)) [0..<5])
       = [PyFloat (5 / 2), PyFloat (5 / 2), PyFloat 0, PyFloat (5 / 2)]
   \<and> filter (task_recorded example_builtins example_search example_dir) [0..<5] = [0, 1, 3, 4]
   \<and> round_entries example_builtins example_search example_dir 2 = empty_stat
   \<and> round_line example_builtins example_search example_dir 2
       = ExecutionError (AlgorithmError ''crash'')
   \<and> read_task_from_file example_builtins (example_dir 2)
       = Inr ([[0, 1]], 2, 0, 0, 0, PyFloat (5 / 2))
   \<and> massive_test_try interrupted_search 2 ([[0, 1]], 2, 0, 0, 0, PyFloat (5 / 2)) empty_stat
       = Some (Inl KeyboardInterrupt)
   \<and> task_returns example_builtins interrupted_search example_dir 0
   \<and> task_returns example_builtins interrupted_search example_dir 1
   \<and> massive_test example_builtins interrupted_search example_dir (Some 5)
       = Some (Inl KeyboardInterrupt)"
proof -
  have r: "list_all (task_returns example_builtins example_search example_dir) [0, 1, 2, 3, 4]"
    by code_simp
  have u: "[0..<5] = [0, 1, 2, 3, 4::nat]" by code_simp
  from r have h: "\<forall>k<5. task_returns example_builtins example_search example_dir k"
    unfolding u [symmetric] by (simp add: list_all_iff)
  have p: "0 < (5::nat)" by simp
  have n: "int 5 = 5" by simp
  have c: "concat (map (\<lambda>k. corr (round_entries example_builtins example_search example_dir k)) [0..<5])
       = [True, True, False, False]"
    by code_simp
  have l: "concat (map (\<lambda>k. len (round_entries example_builtins example_search example_dir k)) [0..<5])
       = [PyFloat (5 / 2), PyFloat (5 / 2), PyFloat 0, PyFloat (5 / 2)]"
    by code_simp
  have f: "filter (task_recorded example_builtins example_search example_dir) [0..<5] = [0, 1, 3, 4]"
    by code_simp
  have e2: "round_entries example_builtins example_search example_dir 2 = empty_stat"
    by code_simp
  have l2: "round_line example_builtins example_search example_dir 2
       = ExecutionError (AlgorithmError ''crash'')"
    by code_simp
  note T = massive_test_isolates_failures
    [where B = example_builtins and sf = example_search and dp = example_dir and N = 5,
      THEN conjunct1, rule_format, OF conjI [OF p h], unfolded n]
  have rd: "read_task_from_file example_builtins (example_dir 2)
       = Inr ([[0, 1]], 2, 0, 0, 0, PyFloat (5 / 2))"
    by code_simp
  have ki: "massive_test_try interrupted_search 2 ([[0, 1]], 2, 0, 0, 0, PyFloat (5 / 2)) empty_stat
       = Some (Inl KeyboardInterrupt)"
    by (simp add: massive_test_try_def interrupted_search_def)
  have ri: "list_all (task_returns example_builtins interrupted_search example_dir) [0, 1]"
    by code_simp
  have u2: "[0..<2] = [0, 1::nat]" by code_simp
  from ri have hi: "\<forall>k'<2. task_returns example_builtins interrupted_search example_dir k'"
    unfolding u2 [symmetric] by (simp add: list_all_iff)
  have nk: "\<not> is_Exception KeyboardInterrupt" by simp
  have p2: "(2::nat) < 5" by simp
  note A = massive_test_isolates_failures
    [where B = example_builtins and sf = interrupted_search and dp = example_dir and N = 5]
  from A have "\<forall>k t e.
             k < 5 \<and> (\<forall>k'<k. task_returns example_builtins interrupted_search example_dir k')
             \<and> read_task_from_file example_builtins (example_dir k) = Inr t
             \<and> massive_test_try interrupted_search k t empty_stat = Some (Inl e)
             \<and> \<not> is_Exception e
             \<longrightarrow> massive_test example_builtins interrupted_search example_dir (Some (int 5))
                   = Some (Inl e)"
    by blast
  from this [rule_format, OF conjI [OF p2 conjI [OF hi conjI [OF rd conjI [OF ki nk]]]]]
  have I: "massive_test example_builtins interrupted_search example_dir (Some 5)
       = Some (Inl KeyboardInterrupt)"
    by (simp only: n)
  from r have "task_returns example_builtins example_search example_dir 0
   \<and> task_returns example_builtins example_search example_dir 1
   \<and> task_returns example_builtins example_search example_dir 2
   \<and> task_returns example_builtins example_search example_dir 3
   \<and> task_returns example_builtins example_search example_dir 4"
    by simp
  moreover from ri have "task_returns example_builtins interrupted_search example_dir 0
   \<and> task_returns example_builtins interrupted_search example_dir 1"
    by simp
  ultimately show ?thesis using p T c l f e2 l2 rd ki I by blast
qed

text \<open>
  The claim as the spec states it fails: on a batch of five tasks where the search
  function raises on task 2, the sequences have four entries, none of them for task 2.
\<close>

theorem massive_test_failed_task_counterexample:
  "massive_test example_builtins example_search example_dir (Some 5) =
     Some (Inr (\<lparr>corr = [True, True, False, False],
                  len = [PyFloat (5 / 2), PyFloat (5 / 2), PyFloat 0, PyFloat (5 / 2)],
                  st_size = [6, 6, 4, 6],
                  steps = [3, 3, 9, 3]\<rparr>,
                [Invoked 0, Printed (TaskPathFound 0 (PyFloat (5 / 2)) 6 3 True),
                 Invoked 1, Printed (TaskPathFound 1 (PyFloat (5 / 2)) 6 3 True),
                 Invoked 2, Printed (ExecutionError (AlgorithmError ''crash'')),
                 Invoked 3, Printed (TaskPathNotFound 3),
                 Invoked 4, Printed (TaskPathFound 4 (PyFloat (5 / 2)) 6 3 False)]))"
  by code_simp

text \<open>
  Claim C5. When \<open>num_of_tasks\<close> is \<open>None\<close>, zero or negative, \<open>massive_test\<close> returns
  the dictionary with four empty sequences, for every search function and every
  directory: it raises nothing, prints its message and calls the search function on no
  task.
\<close>

theorem massive_test_rejects_bad_count:
  assumes "num_of_tasks = None \<or> (\<exists>n. num_of_tasks = Some n \<and> n \<le> 0)"
  shows "massive_test B sf dp num_of_tasks =
           Some (Inr (\<lparr>corr = [], len = [], st_size = [], steps = []\<rparr>,
                      [Printed IncorrectNumberOfTasks]))
         \<and> invocations [Printed IncorrectNumberOfTasks] = []"
  using assms by (auto simp: massive_test_def invocations_def)

theorem massive_test_rejects_bad_count_witness:
  "massive_test example_builtins example_search example_dir (Some 0) =
     Some (Inr (\<lparr>corr = [], len = [], st_size = [], steps = []\<rparr>, [Printed IncorrectNumberOfTasks]))
   \<and> massive_test example_builtins example_search example_dir (Some (- 3)) =
     Some (Inr (\<lparr>corr = [], len = [], st_size = [], steps = []\<rparr>, [Printed IncorrectNumberOfTasks]))
   \<and> massive_test example_builtins example_search example_dir None =
     Some (Inr (\<lparr>corr = [], len = [], st_size = [], steps = []\<rparr>, [Printed IncorrectNumberOfTasks]))"
  using massive_test_rejects_bad_count [of "Some 0" example_builtins example_search example_dir]
        massive_test_rejects_bad_count [of "Some (- 3)" example_builtins example_search example_dir]
        massive_test_rejects_bad_count [of None example_builtins example_search example_dir]
  by simp

section \<open>Properties of the single-task runners\<close>

lemma simple_test_map: "convert_string_to_cells simple_test_map_str = Inr simple_test_cells"
  by code_simp

lemma not_found_map: "convert_string_to_cells not_found_map_str = Inr not_found_cells"
  by code_simp




lemma index_in_range:
  "0 \<le> k \<Longrightarrow> k < int (length xs) \<Longrightarrow> index xs k = Inr (xs ! nat k)"
  by (simp add: index_def Let_def)

lemma simple_test_pool_sizes:
  "length simple_test_starts = 25" "length simple_test_goals = 25"
  "length simple_test_lengths = 25" "length not_found_starts = 2" "length not_found_goals = 2"
  by (simp_all add: simple_test_starts_def simple_test_goals_def simple_test_lengths_def
      not_found_starts_def not_found_goals_def)




lemma simple_test_unfold_task:
  assumes "0 \<le> t" "t < 25"
  shows "simple_test sf (Some t) r =
           except_Exception (simple_test_try sf simple_test_cells
             (simple_test_starts ! nat t) (simple_test_goals ! nat t)
             (simple_test_lengths ! nat t))"
proof -
  from assms have "choose_task 25 (Some t) r = t" by (simp add: choose_task_def)
  with assms show ?thesis
    by (simp add: simple_test_def simple_test_map Let_def index_in_range simple_test_pool_sizes)
qed

lemma simple_test_not_found_unfold_task:
  assumes "0 \<le> t" "t < 2"
  shows "simple_test_not_found sf (Some t) r =
           except_Exception (simple_test_not_found_try sf not_found_cells
             (not_found_starts ! nat t) (not_found_goals ! nat t))"
proof -
  from assms have "choose_task 2 (Some t) r = t" by (simp add: choose_task_def)
  with assms show ?thesis
    by (simp add: simple_test_not_found_def not_found_map Let_def index_in_range simple_test_pool_sizes)
qed



section \<open>The correctness flag\<close>








section \<open>Exceptions of \<open>read_task_from_file\<close>\<close>

lemma read_task_missing_file: "read_task_from_file B None = Inl OSError"
  by (simp add: read_task_from_file_def)

lemma read_task_empty_file: "read_task_from_file B (Some []) = Inl StopIteration"
  by (simp add: read_task_from_file_def next_int_def next_line_def)

lemma read_task_bad_height:
  "int_of_str B l = None \<Longrightarrow> read_task_from_file B (Some (l # rest)) = Inl ValueError"
  by (simp add: read_task_from_file_def next_int_def next_line_def to_int_def)

lemma massive_test_task_read_error:
  "read_task_from_file B (dp k) = Inl e \<Longrightarrow> massive_test_task B sf dp k s = Some (Inl e)"
  by (cases s) (simp add: massive_test_task_def)

lemma massive_test_loop_read_error:
  assumes "\<forall>k'\<in>set ks. task_returns B sf dp k'" and "read_task_from_file B (dp k) = Inl e"
  shows "massive_test_loop B sf dp (ks @ k # rest) (stat, trace) = Some (Inl e)"
proof -
  from massive_test_loop_batch [OF assms(1), of stat trace] obtain s1 t1 where
    "massive_test_loop B sf dp ks (stat, trace) = Some (Inr (s1, t1))" by blast
  then show ?thesis
    by (simp add: massive_test_loop_append massive_test_task_read_error [where B = B and dp = dp and k = k, OF assms(2)])
qed

text \<open>
  Claim C7. \<open>read_task_from_file\<close> is called before the \<open>try\<close> statement. When it raises
  on task \<open>k\<close> of a batch (the tasks before \<open>k\<close> having run), the exception leaves
  \<open>massive_test\<close>: no dictionary is returned and no later task runs. A file that cannot
  be opened, an empty file and a first line that is no number are such cases. An
  exception of the search function of class \<open>Exception\<close>, in contrast, ends only the
  round of its task.
\<close>

theorem massive_test_read_error_propagates:
  "(k < N \<and> (\<forall>k'<k. task_returns B sf dp k') \<and> read_task_from_file B (dp k) = Inl e \<longrightarrow>
      massive_test B sf dp (Some (int N)) = Some (Inl e))
   \<and> read_task_from_file B None = Inl OSError
   \<and> read_task_from_file B (Some []) = Inl StopIteration
   \<and> (int_of_str B l = None \<longrightarrow> read_task_from_file B (Some (l # rest)) = Inl ValueError)
   \<and> (read_task_from_file B (dp k) = Inr (cells, si, sj, gi, gj, el)
        \<and> sf cells si sj gi gj = Inl e' \<and> is_Exception e' \<longrightarrow>
      massive_test_task B sf dp k (stat, trace) =
        Some (Inr (stat, trace @ [Invoked k, Printed (ExecutionError e')])))"
proof (intro conjI impI)
  assume a: "k < N \<and> (\<forall>k'<k. task_returns B sf dp k') \<and> read_task_from_file B (dp k) = Inl e"
  then have kN: "k < N" and rd: "read_task_from_file B (dp k) = Inl e" by simp_all
  from a have before: "\<forall>k'\<in>set [0..<k]. task_returns B sf dp k'" by simp
  from kN have "[0..<N] = [0..<k] @ k # [Suc k..<N]"
    by (metis le_add_diff_inverse less_imp_le_nat upt_add_eq_append upt_conv_Cons zero_le)
  with massive_test_loop_read_error [OF before rd]
  have "massive_test_loop B sf dp [0..<N]
          (\<lparr>corr = [], len = [], st_size = [], steps = []\<rparr>, []) = Some (Inl e)"
    by simp
  with kN show "massive_test B sf dp (Some (int N)) = Some (Inl e)"
    by (simp add: massive_test_def)
next
  show "read_task_from_file B None = Inl OSError" by (rule read_task_missing_file)
  show "read_task_from_file B (Some []) = Inl StopIteration" by (rule read_task_empty_file)
next
  assume "int_of_str B l = None"
  then show "read_task_from_file B (Some (l # rest)) = Inl ValueError"
    by (rule read_task_bad_height)
next
  assume a: "read_task_from_file B (dp k) = Inr (cells, si, sj, gi, gj, el)
             \<and> sf cells si sj gi gj = Inl e' \<and> is_Exception e'"
  then have r: "read_task_from_file B (dp k) = Inr (cells, si, sj, gi, gj, el)"
    and x: "sf cells si sj gi gj = Inl e'" and ex: "is_Exception e'" by simp_all
  show "massive_test_task B sf dp k (stat, trace) =
          Some (Inr (stat, trace @ [Invoked k, Printed (ExecutionError e')]))"
    by (rule massive_test_task_raise [where B = B and dp = dp and k = k and sf = sf, OF r x ex])
qed

theorem massive_test_read_error_propagates_witness:
  "(5::nat) < 6
   \<and> task_returns example_builtins example_search example_dir 0
   \<and> task_returns example_builtins example_search example_dir 1
   \<and> task_returns example_builtins example_search example_dir 2
   \<and> task_returns example_builtins example_search example_dir 3
   \<and> task_returns example_builtins example_search example_dir 4
   \<and> read_task_from_file example_builtins (example_dir 5) = Inl OSError
   \<and> massive_test example_builtins example_search example_dir (Some 6) = Some (Inl OSError)
   \<and> int_of_str example_builtins ''15 30\<newline>'' = None
   \<and> read_task_from_file example_builtins (Some [''15 30\<newline>'', ''. .\<newline>'']) = Inl ValueError"
proof -
  have r: "list_all (task_returns example_builtins example_search example_dir) [0, 1, 2, 3, 4]"
    by code_simp
  have u: "[0..<5] = [0, 1, 2, 3, 4::nat]" by code_simp
  from r have h: "\<forall>k'<5. task_returns example_builtins example_search example_dir k'"
    unfolding u [symmetric] by (simp add: list_all_iff)
  have rd: "read_task_from_file example_builtins (example_dir 5) = Inl OSError"
    by (simp add: example_dir_def read_task_from_file_def)
  have p: "(5::nat) < 6" by simp
  have n: "int 6 = 6" by simp
  have b: "int_of_str example_builtins ''15 30\<newline>'' = None"
    by (simp add: example_builtins_def)
  note T = massive_test_read_error_propagates
    [where B = example_builtins and sf = example_search and dp = example_dir and k = 5
       and N = 6 and e = OSError and l = "''15 30\<newline>''" and rest = "[''. .\<newline>'']"]
  from T [THEN conjunct1, rule_format, OF conjI [OF p conjI [OF h rd]]]
  have m: "massive_test example_builtins example_search example_dir (Some 6) = Some (Inl OSError)"
    by (simp only: n)
  from T [THEN conjunct2, THEN conjunct2, THEN conjunct2, THEN conjunct1, rule_format, OF b]
  have v: "read_task_from_file example_builtins (Some [''15 30\<newline>'', ''. .\<newline>'']) = Inl ValueError" .
  from r p rd m b v show ?thesis by simp
qed

section \<open>Task 0 of \<open>simple_test\<close>\<close>

lemma simple_test_labels_ok: "labels_ok simple_test_cells simple_test_labels"
  by code_simp

lemma simple_test_path0_walk: "grid_walk simple_test_cells (9, 0) (11, 20) simple_test_path0 36"
  by code_simp

lemma traversable_in_range:
  assumes "traversable m a b"
  shows "a \<in> set [0..int (fst (get_size m)) - 1]" and "b \<in> set [0..int (snd (get_size m)) - 1]"
  using assms by (auto simp: traversable_def in_bounds_def)

lemma cardinal_cases:
  assumes "compute_cost a b a' b' = Inr c"
  shows "c = 1 \<and> ((a' = a + 1 \<and> b' = b) \<or> (a' = a - 1 \<and> b' = b)
                \<or> (a' = a \<and> b' = b + 1) \<or> (a' = a \<and> b' = b - 1))"
proof -
  from assms have "\<bar>a - a'\<bar> + \<bar>b - b'\<bar> = 1" and "c = 1"
    by (auto simp: compute_cost_def split: if_splits)
  then show ?thesis by auto
qed

lemma labels_ok_step:
  assumes ok: "labels_ok m d"
    and ta: "traversable m a b" and tb: "traversable m a' b'"
    and cc: "compute_cost a b a' b' = Inr c"
  shows "label d a' b' \<le> label d a b + c"
proof -
  from ok traversable_in_range [OF ta] ta
  have all: "step_ok m d a b (a + 1) b \<and> step_ok m d a b (a - 1) b
           \<and> step_ok m d a b a (b + 1) \<and> step_ok m d a b a (b - 1)"
    unfolding labels_ok_def list_all_iff by blast
  from cardinal_cases [OF cc] have c: "c = 1"
    and nb: "(a' = a + 1 \<and> b' = b) \<or> (a' = a - 1 \<and> b' = b)
             \<or> (a' = a \<and> b' = b + 1) \<or> (a' = a \<and> b' = b - 1)"
    by simp_all
  from nb all tb show ?thesis unfolding c step_ok_def by auto
qed

lemma walk_cost_Cons:
  assumes "walk_cost (a # b # rest) = Inr c"
  shows "\<exists>c1 c2. compute_cost (fst a) (snd a) (fst b) (snd b) = Inr c1
           \<and> walk_cost (b # rest) = Inr c2 \<and> c = c1 + c2"
proof (cases "compute_cost (fst a) (snd a) (fst b) (snd b)")
  case (Inl e)
  with assms show ?thesis by simp
next
  case c1: (Inr c1)
  show ?thesis
  proof (cases "walk_cost (b # rest)")
    case (Inl e)
    with assms c1 show ?thesis by simp
  next
    case (Inr c2)
    with assms c1 show ?thesis by simp
  qed
qed

lemma labels_ok_walk:
  assumes ok: "labels_ok m d"
  shows "p \<noteq> [] \<Longrightarrow> list_all (\<lambda>cell. traversable m (fst cell) (snd cell)) p \<Longrightarrow>
         walk_cost p = Inr c \<Longrightarrow>
         label d (fst (last p)) (snd (last p)) \<le> label d (fst (hd p)) (snd (hd p)) + c"
proof (induction p arbitrary: c rule: walk_cost.induct)
  case 1
  then show ?case by simp
next
  case (2 a)
  then show ?case by simp
next
  case (3 a b rest)
  from walk_cost_Cons [OF "3.prems"(3)] obtain c1 c2 where
    c1: "compute_cost (fst a) (snd a) (fst b) (snd b) = Inr c1"
    and c2: "walk_cost (b # rest) = Inr c2" and c: "c = c1 + c2"
    by blast
  from "3.prems"(2) have ta: "traversable m (fst a) (snd a)"
    and tb: "traversable m (fst b) (snd b)"
    and tr: "list_all (\<lambda>cell. traversable m (fst cell) (snd cell)) (b # rest)"
    by simp_all
  from "3.IH" [OF _ tr c2]
  have "label d (fst (last (b # rest))) (snd (last (b # rest))) \<le> label d (fst b) (snd b) + c2"
    by simp
  moreover from labels_ok_step [OF ok ta tb c1]
  have "label d (fst b) (snd b) \<le> label d (fst a) (snd a) + c1" .
  ultimately show ?case using c by simp
qed

lemma simple_test_try_found_correct:
  assumes "sf m (fst start) (snd start) (fst goal) (snd goal) = Inr res" and "found res"
    and "end_node res = Some n" and "chain_depth (nodes res) n k"
    and "py_int (g (nodes res n)) = Inr a" and "length (other_results res) \<le> 3"
  shows "simple_test_try sf m start goal el =
           Some (Inr (PathFound (g (nodes res n)) (search_tree_size res) (number_of_steps res)
                        (a = el)))"
proof -
  from make_path_path [OF assms(4)] obtain path where
    "make_path (nodes res) (Some n) = Some (Inr (path, g (nodes res n)))" by blast
  with assms show ?thesis
    by (simp add: simple_test_try_def draw_def Let_def)
qed

text \<open>
  Claim C8. Task 0 of the pool of \<open>simple_test\<close> is start (9, 0), goal (11, 20),
  expected length 36, on the map of 15 rows and 30 columns. There is a walk between the
  two cells through traversable cells by cardinal moves of cost 36, and every such walk
  costs at least 36, so 36 is the length of a shortest path. A search function that
  returns a goal node with this length gets the flag \<open>True\<close>, any other length gets
  \<open>False\<close>.
\<close>

theorem simple_test_task0_shortest_path:
  "index simple_test_starts 0 = Inr (9, 0)
   \<and> index simple_test_goals 0 = Inr (11, 20)
   \<and> index simple_test_lengths 0 = Inr 36
   \<and> convert_string_to_cells simple_test_map_str = Inr simple_test_cells
   \<and> get_size simple_test_cells = (15, 30)
   \<and> (\<exists>p. grid_walk simple_test_cells (9, 0) (11, 20) p 36)
   \<and> (\<forall>p c. grid_walk simple_test_cells (9, 0) (11, 20) p c \<longrightarrow> 36 \<le> c)
   \<and> (sf simple_test_cells 9 0 11 20 = Inr res \<and> found res \<and> end_node res = Some n
        \<and> chain_depth (nodes res) n k \<and> py_int (g (nodes res n)) = Inr a
        \<and> length (other_results res) \<le> 3 \<longrightarrow>
      simple_test sf (Some 0) r =
        Some (Inr (PathFound (g (nodes res n)) (search_tree_size res) (number_of_steps res)
                     (a = 36))))"
proof (intro conjI allI impI)
  show "index simple_test_starts 0 = Inr (9, 0)"
    by (simp add: index_def simple_test_starts_def)
  show "index simple_test_goals 0 = Inr (11, 20)"
    by (simp add: index_def simple_test_goals_def)
  show "index simple_test_lengths 0 = Inr 36"
    by (simp add: index_def simple_test_lengths_def)
  show "convert_string_to_cells simple_test_map_str = Inr simple_test_cells"
    by (rule simple_test_map)
  show "get_size simple_test_cells = (15, 30)"
    by (simp add: get_size_def simple_test_cells_def)
  show "\<exists>p. grid_walk simple_test_cells (9, 0) (11, 20) p 36"
    using simple_test_path0_walk by blast
next
  fix p c
  assume w: "grid_walk simple_test_cells (9, 0) (11, 20) p c"
  then have "p \<noteq> []" "hd p = (9, 0)" "last p = (11, 20)"
    "list_all (\<lambda>cell. traversable simple_test_cells (fst cell) (snd cell)) p"
    "walk_cost p = Inr c"
    by (simp_all add: grid_walk_def)
  from labels_ok_walk [OF simple_test_labels_ok this(1) this(4) this(5)] this(2) this(3)
  have "label simple_test_labels 11 20 \<le> label simple_test_labels 9 0 + c" by simp
  moreover have "label simple_test_labels 11 20 = 36" "label simple_test_labels 9 0 = 0"
    by (simp_all add: label_def simple_test_labels_def)
  ultimately show "36 \<le> c" by simp
next
  assume a: "sf simple_test_cells 9 0 11 20 = Inr res \<and> found res \<and> end_node res = Some n
        \<and> chain_depth (nodes res) n k \<and> py_int (g (nodes res n)) = Inr a
        \<and> length (other_results res) \<le> 3"
  have p: "simple_test_starts ! 0 = (9, 0)" "simple_test_goals ! 0 = (11, 20)"
    "simple_test_lengths ! 0 = 36"
    by (simp_all add: simple_test_starts_def simple_test_goals_def simple_test_lengths_def)
  from a have
    "simple_test_try sf simple_test_cells (9, 0) (11, 20) 36 =
       Some (Inr (PathFound (g (nodes res n)) (search_tree_size res) (number_of_steps res)
                    (a = 36)))"
    by (intro simple_test_try_found_correct [where k = k]) simp_all
  then show "simple_test sf (Some 0) r =
        Some (Inr (PathFound (g (nodes res n)) (search_tree_size res) (number_of_steps res)
                     (a = 36)))"
    by (simp add: simple_test_unfold_task [of 0] p except_Exception_def)
qed

theorem simple_test_task0_shortest_path_witness:
  "grid_walk simple_test_cells (9, 0) (11, 20) simple_test_path0 36
   \<and> (36::int) \<le> 36
   \<and> found_36_search simple_test_cells 9 0 11 20 = Inr found_36_result
   \<and> found found_36_result \<and> end_node found_36_result = Some 1
   \<and> chain_depth (nodes found_36_result) 1 1
   \<and> py_int (g (nodes found_36_result 1)) = Inr 36
   \<and> length (other_results found_36_result) \<le> 3
   \<and> simple_test found_36_search (Some 0) 0 = Some (Inr (PathFound (PyInt 36) 250 200 True))"
proof -
  note T = simple_test_task0_shortest_path
    [where sf = found_36_search and res = found_36_result and n = 1 and k = 1 and a = 36
       and r = 0]
  have w: "grid_walk simple_test_cells (9, 0) (11, 20) simple_test_path0 36"
    by (rule simple_test_path0_walk)
  have h: "found_36_search simple_test_cells 9 0 11 20 = Inr found_36_result"
    "found found_36_result" "end_node found_36_result = Some 1"
    "chain_depth (nodes found_36_result) 1 1"
    "py_int (g (nodes found_36_result 1)) = Inr 36"
    "length (other_results found_36_result) \<le> 3"
    by (simp_all add: found_36_search_def found_36_result_def)
  have v: "g (nodes found_36_result 1) = PyInt 36" "search_tree_size found_36_result = 250"
    "number_of_steps found_36_result = 200"
    by (simp_all add: found_36_result_def)
  from T have lb: "\<forall>p c. grid_walk simple_test_cells (9, 0) (11, 20) p c \<longrightarrow> 36 \<le> c"
    by blast
  from lb w have le: "(36::int) \<le> 36" by blast
  from T h have "simple_test found_36_search (Some 0) 0 =
      Some (Inr (PathFound (g (nodes found_36_result 1)) (search_tree_size found_36_result)
                   (number_of_steps found_36_result) (36 = (36::int))))"
    by simp
  then have "simple_test found_36_search (Some 0) 0 = Some (Inr (PathFound (PyInt 36) 250 200 True))"
    unfolding v by simp
  with w le h show ?thesis by simp
qed

section \<open>Task 0 of \<open>simple_test_not_found\<close>\<close>

lemma not_found_wall: "\<not> traversable not_found_cells a 21"
proof
  assume t: "traversable not_found_cells a 21"
  have "get_size not_found_cells = (15, 30)" by (simp add: get_size_def not_found_cells_def)
  with traversable_in_range(1) [OF t] have "a \<in> set [0..14]" by simp
  moreover have "list_all (\<lambda>a. \<not> traversable not_found_cells a 21) [0..14]" by code_simp
  ultimately show False using t by (simp add: list_all_iff)
qed

lemma not_found_walk_stays_left:
  "p \<noteq> [] \<Longrightarrow> list_all (\<lambda>cell. traversable not_found_cells (fst cell) (snd cell)) p \<Longrightarrow>
   walk_cost p = Inr c \<Longrightarrow> snd (hd p) < 21 \<Longrightarrow> snd (last p) < 21"
proof (induction p arbitrary: c rule: walk_cost.induct)
  case 1
  then show ?case by simp
next
  case (2 a)
  then show ?case by simp
next
  case (3 a b rest)
  from walk_cost_Cons [OF "3.prems"(3)] obtain c1 c2 where
    c1: "compute_cost (fst a) (snd a) (fst b) (snd b) = Inr c1"
    and c2: "walk_cost (b # rest) = Inr c2"
    by blast
  from "3.prems"(2) have tb: "traversable not_found_cells (fst b) (snd b)"
    and tr: "list_all (\<lambda>cell. traversable not_found_cells (fst cell) (snd cell)) (b # rest)"
    by simp_all
  from cardinal_cases [OF c1] "3.prems"(4) have "snd b \<le> 21" by auto
  moreover from tb not_found_wall [of "fst b"] have "snd b \<noteq> 21" by auto
  ultimately have "snd (hd (b # rest)) < 21" by simp
  from "3.IH" [OF _ tr c2 this] show ?case by simp
qed

lemma simple_test_not_found_try_correct:
  assumes "sf m (fst start) (snd start) (fst goal) (snd goal) = Inr res" and "\<not> found res"
    and "length (other_results res) \<le> 3"
  shows "simple_test_not_found_try sf m start goal =
           Some (Inr (NoPathCorrect (search_tree_size res) (number_of_steps res)))"
  using assms by (simp add: simple_test_not_found_try_def draw_def)

text \<open>
  Claim C9. Task 0 of the pool of \<open>simple_test_not_found\<close> is start (0, 0), goal
  (14, 25). Column 21 of the map is blocked in every row, so no walk through traversable
  cells by cardinal moves joins the two cells. When the search function reports that it
  found no path (and returns at most the three collections \<open>draw\<close> accepts), the runner
  prints its line with \<open>Correct: True\<close>.
\<close>

theorem not_found_task0_has_no_path:
  "index not_found_starts 0 = Inr (0, 0)
   \<and> index not_found_goals 0 = Inr (14, 25)
   \<and> convert_string_to_cells not_found_map_str = Inr not_found_cells
   \<and> traversable not_found_cells 0 0 \<and> traversable not_found_cells 14 25
   \<and> (\<forall>p c. \<not> grid_walk not_found_cells (0, 0) (14, 25) p c)
   \<and> (sf not_found_cells 0 0 14 25 = Inr res \<and> \<not> found res
        \<and> length (other_results res) \<le> 3 \<longrightarrow>
      simple_test_not_found sf (Some 0) r =
        Some (Inr (NoPathCorrect (search_tree_size res) (number_of_steps res))))"
proof (intro conjI allI impI)
  show "index not_found_starts 0 = Inr (0, 0)"
    by (simp add: index_def not_found_starts_def)
  show "index not_found_goals 0 = Inr (14, 25)"
    by (simp add: index_def not_found_goals_def)
  show "convert_string_to_cells not_found_map_str = Inr not_found_cells"
    by (rule not_found_map)
  show "traversable not_found_cells 0 0" by code_simp
  show "traversable not_found_cells 14 25" by code_simp
next
  fix p c
  show "\<not> grid_walk not_found_cells (0, 0) (14, 25) p c"
  proof
    assume w: "grid_walk not_found_cells (0, 0) (14, 25) p c"
    then have "p \<noteq> []" "hd p = (0, 0)" "last p = (14, 25)"
      "list_all (\<lambda>cell. traversable not_found_cells (fst cell) (snd cell)) p"
      "walk_cost p = Inr c"
      by (simp_all add: grid_walk_def)
    from not_found_walk_stays_left [OF this(1) this(4) this(5)] this(2) this(3)
    show False by simp
  qed
next
  assume a: "sf not_found_cells 0 0 14 25 = Inr res \<and> \<not> found res
        \<and> length (other_results res) \<le> 3"
  have p: "not_found_starts ! 0 = (0, 0)" "not_found_goals ! 0 = (14, 25)"
    by (simp_all add: not_found_starts_def not_found_goals_def)
  from a have
    "simple_test_not_found_try sf not_found_cells (0, 0) (14, 25) =
       Some (Inr (NoPathCorrect (search_tree_size res) (number_of_steps res)))"
    by (intro simple_test_not_found_try_correct) simp_all
  then show "simple_test_not_found sf (Some 0) r =
        Some (Inr (NoPathCorrect (search_tree_size res) (number_of_steps res)))"
    by (simp add: simple_test_not_found_unfold_task [of 0] p except_Exception_def)
qed

theorem not_found_task0_has_no_path_witness:
  "no_path_search not_found_cells 0 0 14 25 = Inr no_path_result
   \<and> \<not> found no_path_result \<and> length (other_results no_path_result) \<le> 3
   \<and> simple_test_not_found no_path_search (Some 0) 0 = Some (Inr (NoPathCorrect 315 315))
   \<and> \<not> grid_walk not_found_cells (0, 0) (14, 25) [(0, 0), (14, 25)] 1"
proof -
  note T = not_found_task0_has_no_path
    [where sf = no_path_search and res = no_path_result and r = 0]
  have h: "no_path_search not_found_cells 0 0 14 25 = Inr no_path_result"
    "\<not> found no_path_result" "length (other_results no_path_result) \<le> 3"
    by (simp_all add: no_path_search_def no_path_result_def)
  have v: "search_tree_size no_path_result = 315" "number_of_steps no_path_result = 315"
    by (simp_all add: no_path_result_def)
  from T have "\<forall>p c. \<not> grid_walk not_found_cells (0, 0) (14, 25) p c" by blast
  then have n: "\<not> grid_walk not_found_cells (0, 0) (14, 25) [(0, 0), (14, 25)] 1" by blast
  from T h have "simple_test_not_found no_path_search (Some 0) 0 =
      Some (Inr (NoPathCorrect (search_tree_size no_path_result) (number_of_steps no_path_result)))"
    by simp
  with h n show ?thesis by (simp add: v)
qed

end
